theory Spec2Isabelle
  imports Main "HOL-Library.Word" "HOL-Library.Sublist"
begin

section \<open>LumiConnect: the entry point \<^verbatim>\<open>main\<close> of \<^verbatim>\<open>src/main.c\<close>\<close>

text \<open>
  \<^verbatim>\<open>main\<close> is a single-threaded sequence of calls into collaborators that are not part of
  the file: the Pico SDK (standard I/O, sleeping, the CYW43 radio, I2C and GPIO), the
  BH1750 sensor driver, the MQTT client wrapper and the C library's \<^verbatim>\<open>snprintf\<close>.
  The embedding records every such call, in program order, as an \<open>event\<close> of a trace.
  What a collaborator answers is supplied by an environment \<open>env\<close>: each answer is a
  function of the whole history of calls made so far, so every sequence of answers that
  a run can observe is the behaviour of some environment.
\<close>

subsection \<open>Data\<close>

text \<open>A C \<^verbatim>\<open>float\<close> is kept as its 32 bits; the program never computes with it.\<close>

type_synonym c_float = "32 word"

text \<open>
  The compile-time constants of \<^verbatim>\<open>configura_geral.h\<close> that \<^verbatim>\<open>main\<close> uses. The header is
  not part of \<^verbatim>\<open>src/\<close>, so the constants are parameters.
\<close>

record config =
  WIFI_SSID :: string
  WIFI_PASSWORD :: string
  DEVICE_ID :: string
  TOPICO_PUBLICACAO_LUZ :: string

text \<open>The console lines of \<^verbatim>\<open>main\<close>, one constructor per \<^verbatim>\<open>printf\<close> (source line in brackets).\<close>

datatype log_line =
    Log_projeto                 \<comment> \<open>[33] banner\<close>
  | Log_inicializando_hw        \<comment> \<open>[36]\<close>
  | Log_erro_inicializar_wifi   \<comment> \<open>[40]\<close>
  | Log_erro_conectar_wifi      \<comment> \<open>[47]\<close>
  | Log_conectado_wifi string   \<comment> \<open>[50] with the SSID\<close>
  | Log_i2c_inicializado        \<comment> \<open>[59]\<close>
  | Log_inicializando_modulos   \<comment> \<open>[63]\<close>
  | Log_sensor_pronto           \<comment> \<open>[66]\<close>
  | Log_mqtt_iniciado           \<comment> \<open>[69]\<close>
  | Log_mqtt_estabelecida       \<comment> \<open>[78] success\<close>
  | Log_aviso_inicial           \<comment> \<open>[80] warning after the grace period\<close>
  | Log_luminosidade c_float    \<comment> \<open>[93] with the reading\<close>
  | Log_aviso_desconectado      \<comment> \<open>[104] warning in the main loop\<close>

text \<open>One event per call of a collaborator; a call that returns a value carries it.\<close>

datatype event =
    Ev_stdio_init_all
  | Ev_stdio_usb_connected bool
  | Ev_sleep_ms nat
  | Ev_printf log_line
  | Ev_cyw43_arch_init int
  | Ev_cyw43_arch_enable_sta_mode
  | Ev_cyw43_arch_wifi_connect_timeout_ms string string nat int
      \<comment> \<open>SSID, password, timeout in ms, returned status;
          the authentication is always \<^verbatim>\<open>CYW43_AUTH_WPA2_AES_PSK\<close>\<close>
  | Ev_i2c_init nat
      \<comment> \<open>the baud rate; the instance is always \<^verbatim>\<open>i2c1\<close>\<close>
  | Ev_gpio_set_function nat
      \<comment> \<open>the pin; the function is always \<^verbatim>\<open>GPIO_FUNC_I2C\<close>\<close>
  | Ev_gpio_pull_up nat
  | Ev_bh1750_iniciar
  | Ev_iniciar_mqtt_cliente
  | Ev_cliente_mqtt_esta_conectado bool
  | Ev_bh1750_ler_lux c_float
  | Ev_publicar_mensagem_mqtt string string
      \<comment> \<open>the two C strings the pointers lead to: topic, payload\<close>

type_synonym trace = "event list"

text \<open>
  The answers of the collaborators, each as a function of the calls made before it.
  \<open>fmt_2f\<close> is the text the C library's \<^verbatim>\<open>%.2f\<close> conversion produces for a \<^verbatim>\<open>float\<close>;
  the library is not part of the repository.
\<close>

record env =
  usb_attached :: "trace \<Rightarrow> bool"
  radio_init_rc :: "trace \<Rightarrow> int"
  wifi_connect_rc :: "trace \<Rightarrow> int"
  mqtt_conectado :: "trace \<Rightarrow> bool"
  lux_reading :: "trace \<Rightarrow> c_float"
  fmt_2f :: "c_float \<Rightarrow> string"

text \<open>The two local arrays of \<^verbatim>\<open>main\<close> (lines 84 and 85), as their bytes.\<close>

record frame =
  topico_completo :: "char list"
  payload_lux :: "char list"

text \<open>
  How far a run got: \<open>Finished r t\<close> when the code ran to its end (for \<^verbatim>\<open>main\<close>, to a
  \<^verbatim>\<open>return r\<close>) with trace \<open>t\<close>; \<open>Unfinished t\<close> when it is still inside a loop after the
  number of iterations looked at, with the trace \<open>t\<close> produced up to there.
\<close>

datatype 'a run = Finished 'a trace | Unfinished trace

fun trace_of :: "'a run \<Rightarrow> trace" where
  "trace_of (Finished r t) = t"
| "trace_of (Unfinished t) = t"

subsection \<open>The collaborators' calls\<close>

definition stdio_init_all :: "trace \<Rightarrow> trace" where
  "stdio_init_all t = t @ [Ev_stdio_init_all]"

definition stdio_usb_connected :: "env \<Rightarrow> trace \<Rightarrow> bool \<times> trace" where
  "stdio_usb_connected e t = (usb_attached e t, t @ [Ev_stdio_usb_connected (usb_attached e t)])"

definition sleep_ms :: "nat \<Rightarrow> trace \<Rightarrow> trace" where
  "sleep_ms ms t = t @ [Ev_sleep_ms ms]"

definition printf :: "log_line \<Rightarrow> trace \<Rightarrow> trace" where
  "printf l t = t @ [Ev_printf l]"

definition cyw43_arch_init :: "env \<Rightarrow> trace \<Rightarrow> int \<times> trace" where
  "cyw43_arch_init e t = (radio_init_rc e t, t @ [Ev_cyw43_arch_init (radio_init_rc e t)])"

definition cyw43_arch_enable_sta_mode :: "trace \<Rightarrow> trace" where
  "cyw43_arch_enable_sta_mode t = t @ [Ev_cyw43_arch_enable_sta_mode]"

definition cyw43_arch_wifi_connect_timeout_ms ::
    "env \<Rightarrow> string \<Rightarrow> string \<Rightarrow> nat \<Rightarrow> trace \<Rightarrow> int \<times> trace" where
  "cyw43_arch_wifi_connect_timeout_ms e ssid pw timeout t =
     (wifi_connect_rc e t,
      t @ [Ev_cyw43_arch_wifi_connect_timeout_ms ssid pw timeout (wifi_connect_rc e t)])"

definition i2c_init :: "nat \<Rightarrow> trace \<Rightarrow> trace" where
  "i2c_init baud t = t @ [Ev_i2c_init baud]"

definition gpio_set_function :: "nat \<Rightarrow> trace \<Rightarrow> trace" where
  "gpio_set_function pin t = t @ [Ev_gpio_set_function pin]"

definition gpio_pull_up :: "nat \<Rightarrow> trace \<Rightarrow> trace" where
  "gpio_pull_up pin t = t @ [Ev_gpio_pull_up pin]"

definition bh1750_iniciar :: "trace \<Rightarrow> trace" where
  "bh1750_iniciar t = t @ [Ev_bh1750_iniciar]"

definition iniciar_mqtt_cliente :: "trace \<Rightarrow> trace" where
  "iniciar_mqtt_cliente t = t @ [Ev_iniciar_mqtt_cliente]"

definition cliente_mqtt_esta_conectado :: "env \<Rightarrow> trace \<Rightarrow> bool \<times> trace" where
  "cliente_mqtt_esta_conectado e t =
     (mqtt_conectado e t, t @ [Ev_cliente_mqtt_esta_conectado (mqtt_conectado e t)])"

definition bh1750_ler_lux :: "env \<Rightarrow> trace \<Rightarrow> c_float \<times> trace" where
  "bh1750_ler_lux e t = (lux_reading e t, t @ [Ev_bh1750_ler_lux (lux_reading e t)])"

definition publicar_mensagem_mqtt :: "string \<Rightarrow> string \<Rightarrow> trace \<Rightarrow> trace" where
  "publicar_mensagem_mqtt topico payload t = t @ [Ev_publicar_mensagem_mqtt topico payload]"

subsection \<open>C strings and \<^verbatim>\<open>snprintf\<close>\<close>

abbreviation NUL :: char where
  "NUL \<equiv> CHR 0x00"

text \<open>The C string a pointer to \<open>buf\<close> leads to: the bytes before the first NUL.\<close>

definition c_str :: "char list \<Rightarrow> string" where
  "c_str buf = takeWhile (\<lambda>c. c \<noteq> NUL) buf"

text \<open>
  \<^verbatim>\<open>snprintf(buf, n, ...)\<close> where \<open>out\<close> is the complete formatted text: at most \<open>n - 1\<close> of
  its bytes are stored, followed by a NUL; the rest of the array keeps its bytes; nothing
  is stored when \<open>n = 0\<close>. \<^verbatim>\<open>main\<close> passes \<^verbatim>\<open>sizeof buf\<close> for \<open>n\<close>.
\<close>

definition snprintf :: "char list \<Rightarrow> nat \<Rightarrow> string \<Rightarrow> char list" where
  "snprintf buf n out =
     (if n = 0 then buf
      else take (n - 1) out @ [NUL] @ drop (Suc (length (take (n - 1) out))) buf)"

text \<open>The text of the format \<^verbatim>\<open>"%s/%s"\<close>; a \<^verbatim>\<open>%s\<close> copies its argument up to the NUL.\<close>

definition fmt_s_slash_s :: "string \<Rightarrow> string \<Rightarrow> string" where
  "fmt_s_slash_s a b = c_str a @ ''/'' @ c_str b"

subsection \<open>\<^verbatim>\<open>main\<close>, phase by phase\<close>

text \<open>
  Lines 29 to 31: \<^verbatim>\<open>while (!stdio_usb_connected()) sleep_ms(100);\<close>. The loop has no bound
  in the source; \<open>fuel\<close> is the number of tests of the loop condition looked at.
\<close>

fun wait_usb :: "env \<Rightarrow> nat \<Rightarrow> trace \<Rightarrow> unit run" where
  "wait_usb e 0 t = Unfinished t"
| "wait_usb e (Suc fuel) t =
     (case stdio_usb_connected e t of
        (c, t1) \<Rightarrow> if \<not> c then wait_usb e fuel (sleep_ms 100 t1) else Finished () t1)"

text \<open>
  Lines 33 to 69: radio, station mode, association, I2C bus, sensor, MQTT client.
  The first component is \<open>Some r\<close> when a \<^verbatim>\<open>return r\<close> was executed.
\<close>

definition bringup :: "env \<Rightarrow> config \<Rightarrow> trace \<Rightarrow> int option \<times> trace" where
  "bringup e cfg t0 =
     (let t1 = printf Log_projeto t0;
          t2 = printf Log_inicializando_hw t1
      in case cyw43_arch_init e t2 of
        (rc_init, t3) \<Rightarrow>
          if rc_init \<noteq> 0 then (Some (- 1), printf Log_erro_inicializar_wifi t3)
          else
            let t4 = cyw43_arch_enable_sta_mode t3
            in case cyw43_arch_wifi_connect_timeout_ms e
                      (WIFI_SSID cfg) (WIFI_PASSWORD cfg) 30000 t4 of
              (rc_conn, t5) \<Rightarrow>
                if rc_conn \<noteq> 0 then (Some (- 1), printf Log_erro_conectar_wifi t5)
                else
                  let t6 = printf (Log_conectado_wifi (WIFI_SSID cfg)) t5;
                      t7 = i2c_init (100 * 1000) t6;
                      t8 = gpio_set_function 2 t7;
                      t9 = gpio_set_function 3 t8;
                      t10 = gpio_pull_up 2 t9;
                      t11 = gpio_pull_up 3 t10;
                      t12 = printf Log_i2c_inicializado t11;
                      t13 = printf Log_inicializando_modulos t12;
                      t14 = bh1750_iniciar t13;
                      t15 = printf Log_sensor_pronto t14;
                      t16 = iniciar_mqtt_cliente t15;
                      t17 = printf Log_mqtt_iniciado t16
                  in (None, t17))"

text \<open>
  Lines 73 to 75:
  \<^verbatim>\<open>for (int i = 0; i < 20 && !cliente_mqtt_esta_conectado(); i++) sleep_ms(500);\<close>.
  The \<^verbatim>\<open>&&\<close> does not call the client once \<open>i\<close> has reached 20.
\<close>

function grace_loop :: "env \<Rightarrow> nat \<Rightarrow> trace \<Rightarrow> trace" where
  "grace_loop e i t =
     (if i < 20 then
        (case cliente_mqtt_esta_conectado e t of
           (c, t1) \<Rightarrow> if \<not> c then grace_loop e (i + 1) (sleep_ms 500 t1) else t1)
      else t)"
  by pat_completeness auto
termination
  by (relation "measure (\<lambda>(e, i, t). 20 - i)") auto

declare grace_loop.simps [simp del]

text \<open>Lines 77 to 81: one more query, reported on the console.\<close>

definition grace_report :: "env \<Rightarrow> trace \<Rightarrow> trace" where
  "grace_report e t =
     (case cliente_mqtt_esta_conectado e t of
        (c, t1) \<Rightarrow> if c then printf Log_mqtt_estabelecida t1 else printf Log_aviso_inicial t1)"

text \<open>Lines 89 to 109: the body of \<^verbatim>\<open>while (1)\<close>.\<close>

definition loop_body :: "env \<Rightarrow> config \<Rightarrow> frame \<times> trace \<Rightarrow> frame \<times> trace" where
  "loop_body e cfg s =
     (case s of (fr, t) \<Rightarrow>
        case cliente_mqtt_esta_conectado e t of
          (c, t1) \<Rightarrow>
            if c then
              (case bh1750_ler_lux e t1 of
                 (lux, t2) \<Rightarrow>
                   let t3 = printf (Log_luminosidade lux) t2;
                       topico = snprintf (topico_completo fr) 128
                                  (fmt_s_slash_s (DEVICE_ID cfg) (TOPICO_PUBLICACAO_LUZ cfg));
                       payload = snprintf (payload_lux fr) 20 (fmt_2f e lux);
                       t4 = publicar_mensagem_mqtt (c_str topico) (c_str payload) t3
                   in (\<lparr>topico_completo = topico, payload_lux = payload\<rparr>, sleep_ms 1000 t4))
            else
              let t2 = printf Log_aviso_desconectado t1;
                  t3 = iniciar_mqtt_cliente t2
              in (fr, sleep_ms 1000 t3))"

text \<open>
  Lines 88 to 110: \<^verbatim>\<open>while (1) { ... }\<close>, with the loop condition as written; \<open>fuel\<close> is
  the number of tests of the condition looked at.
\<close>

fun main_loop :: "env \<Rightarrow> config \<Rightarrow> nat \<Rightarrow> frame \<times> trace \<Rightarrow> unit run" where
  "main_loop e cfg 0 s = Unfinished (snd s)"
| "main_loop e cfg (Suc fuel) s =
     (if (1::int) \<noteq> 0 then main_loop e cfg fuel (loop_body e cfg s)
      else Finished () (snd s))"

text \<open>
  \<^verbatim>\<open>main\<close>, lines 23 to 113. \<open>fuel\<close> bounds the iterations looked at in each of the two
  unbounded loops; \<open>fr\<close> is what the two local arrays hold before they are first written.
\<close>

definition main :: "env \<Rightarrow> config \<Rightarrow> nat \<Rightarrow> frame \<Rightarrow> int run" where
  "main e cfg fuel fr =
     (case wait_usb e fuel (stdio_init_all []) of
        Unfinished t \<Rightarrow> Unfinished t
      | Finished u t1 \<Rightarrow>
          (case bringup e cfg t1 of
             (Some rc, t2) \<Rightarrow> Finished rc t2
           | (None, t2) \<Rightarrow>
               let t3 = grace_loop e 0 t2;
                   t4 = grace_report e t3
               in (case main_loop e cfg fuel (fr, t4) of
                     Unfinished t \<Rightarrow> Unfinished t
                   | Finished u t5 \<Rightarrow> Finished 0 t5)))"

subsection \<open>Reading a trace\<close>

text \<open>The (topic, payload) pairs of the publish calls of a trace, in order.\<close>

fun publishes :: "trace \<Rightarrow> (string \<times> string) list" where
  "publishes [] = []"
| "publishes (Ev_publicar_mensagem_mqtt topico payload # t) = (topico, payload) # publishes t"
| "publishes (ev # t) = publishes t"

text \<open>The number of calls of \<^verbatim>\<open>iniciar_mqtt_cliente\<close> in a trace.\<close>

fun restarts :: "trace \<Rightarrow> nat" where
  "restarts [] = 0"
| "restarts (Ev_iniciar_mqtt_cliente # t) = Suc (restarts t)"
| "restarts (ev # t) = restarts t"

text \<open>The answers of the calls of \<^verbatim>\<open>cliente_mqtt_esta_conectado\<close> in a trace, in order.\<close>

fun queries :: "trace \<Rightarrow> bool list" where
  "queries [] = []"
| "queries (Ev_cliente_mqtt_esta_conectado c # t) = c # queries t"
| "queries (ev # t) = queries t"

text \<open>The arguments of the calls of \<^verbatim>\<open>sleep_ms\<close> in a trace, in order.\<close>

fun sleeps :: "trace \<Rightarrow> nat list" where
  "sleeps [] = []"
| "sleeps (Ev_sleep_ms ms # t) = ms # sleeps t"
| "sleeps (ev # t) = sleeps t"

text \<open>
  The events one iteration of the main loop adds when it starts with the local arrays
  \<open>fr\<close> after the history \<open>t\<close>, and the events \<open>n\<close> iterations add.
\<close>

definition cycle_events :: "env \<Rightarrow> config \<Rightarrow> frame \<Rightarrow> trace \<Rightarrow> trace" where
  "cycle_events e cfg fr t = drop (length t) (snd (loop_body e cfg (fr, t)))"

definition cycles :: "env \<Rightarrow> config \<Rightarrow> nat \<Rightarrow> frame \<times> trace \<Rightarrow> frame \<times> trace" where
  "cycles e cfg n s = (loop_body e cfg ^^ n) s"

definition cycles_events :: "env \<Rightarrow> config \<Rightarrow> nat \<Rightarrow> frame \<Rightarrow> trace \<Rightarrow> trace" where
  "cycles_events e cfg n fr t = drop (length t) (snd (cycles e cfg n (fr, t)))"

text \<open>C's \<^verbatim>\<open>strlen\<close>: the number of bytes before the first NUL.\<close>

definition strlen :: "char list \<Rightarrow> nat" where
  "strlen s = length (c_str s)"

text \<open>
  The reading a connected iteration obtains when it starts after the history \<open>t\<close>: the
  sensor is read right after the connectivity query has answered true.
\<close>

definition lux_at :: "env \<Rightarrow> trace \<Rightarrow> c_float" where
  "lux_at e t = lux_reading e (t @ [Ev_cliente_mqtt_esta_conectado True])"

text \<open>
  The history after \<open>k\<close> rounds of the console wait that all found no console, and
  after \<open>k\<close> rounds of the grace loop that all found the client disconnected.
\<close>

definition usb_wait_trace :: "trace \<Rightarrow> nat \<Rightarrow> trace" where
  "usb_wait_trace t k = t @ concat (replicate k [Ev_stdio_usb_connected False, Ev_sleep_ms 100])"

definition grace_trace :: "trace \<Rightarrow> nat \<Rightarrow> trace" where
  "grace_trace t k =
     t @ concat (replicate k [Ev_cliente_mqtt_esta_conectado False, Ev_sleep_ms 500])"

text \<open>The events the grace loop adds to the history \<open>t\<close>.\<close>

definition grace_events :: "env \<Rightarrow> trace \<Rightarrow> trace" where
  "grace_events e t = drop (length t) (grace_loop e 0 t)"

text \<open>
  What radio initialisation and network association answer during the bring-up that
  starts after the history \<open>t0\<close> (the association is reached only when the radio
  answered 0).
\<close>

definition radio_status :: "env \<Rightarrow> trace \<Rightarrow> int" where
  "radio_status e t0 =
     radio_init_rc e (t0 @ [Ev_printf Log_projeto, Ev_printf Log_inicializando_hw])"

definition assoc_status :: "env \<Rightarrow> trace \<Rightarrow> int" where
  "assoc_status e t0 =
     wifi_connect_rc e (t0 @ [Ev_printf Log_projeto, Ev_printf Log_inicializando_hw,
                              Ev_cyw43_arch_init 0, Ev_cyw43_arch_enable_sta_mode])"

subsection \<open>The bring-up steps of the specification\<close>

text \<open>
  The six steps the specification orders, and the step a call belongs to; configuring the
  two bus lines belongs to the bus step. \<open>raw_steps\<close> lists the step of every call of a
  trace that belongs to one, in order; \<open>steps\<close> lists a run of calls of one step once.
\<close>

datatype step =
  Radio_init | Station_mode | Association | Bus_init | Sensor_init | Message_client_init

fun step_of :: "event \<Rightarrow> step option" where
  "step_of (Ev_cyw43_arch_init rc) = Some Radio_init"
| "step_of Ev_cyw43_arch_enable_sta_mode = Some Station_mode"
| "step_of (Ev_cyw43_arch_wifi_connect_timeout_ms ssid pw timeout rc) = Some Association"
| "step_of (Ev_i2c_init baud) = Some Bus_init"
| "step_of (Ev_gpio_set_function pin) = Some Bus_init"
| "step_of (Ev_gpio_pull_up pin) = Some Bus_init"
| "step_of Ev_bh1750_iniciar = Some Sensor_init"
| "step_of Ev_iniciar_mqtt_cliente = Some Message_client_init"
| "step_of ev = None"

fun raw_steps :: "trace \<Rightarrow> step list" where
  "raw_steps [] = []"
| "raw_steps (ev # t) = (case step_of ev of None \<Rightarrow> raw_steps t | Some s \<Rightarrow> s # raw_steps t)"

definition steps :: "trace \<Rightarrow> step list" where
  "steps t = remdups_adj (raw_steps t)"

text \<open>The events the bring-up adds to the history \<open>t0\<close>.\<close>

definition bringup_events :: "env \<Rightarrow> config \<Rightarrow> trace \<Rightarrow> trace" where
  "bringup_events e cfg t0 = drop (length t0) (snd (bringup e cfg t0))"

subsection \<open>The payload pattern of the specification\<close>

text \<open>
  Written from the specification's words, not from the source: an optional minus sign,
  one or more decimal digits, a point, exactly two decimal digits, and nothing else.
\<close>

definition is_digit :: "char \<Rightarrow> bool" where
  "is_digit c = (c \<in> set ''0123456789'')"

definition spec_two_decimals :: "string \<Rightarrow> bool" where
  "spec_two_decimals s =
     (let u = (case s of [] \<Rightarrow> [] | c # r \<Rightarrow> if c = CHR ''-'' then r else s);
          whole = takeWhile is_digit u;
          rest = dropWhile is_digit u
      in whole \<noteq> [] \<and>
         (case rest of
            [p, a, b] \<Rightarrow> p = CHR ''.'' \<and> is_digit a \<and> is_digit b
          | _ \<Rightarrow> False))"

subsection \<open>The \<^verbatim>\<open>%.2f\<close> conversion as ISO C defines it\<close>

text \<open>
  Modelled from the C standard and IEC 60559, not from the source: the C library is not
  part of the repository. A \<^verbatim>\<open>float\<close> is a binary32 number: one sign bit, eight exponent
  bits, 23 fraction bits; the exponent 255 marks the infinities and the NaNs.
\<close>

definition float_sign :: "c_float \<Rightarrow> bool" where
  "float_sign w = (2 ^ 31 \<le> unat w)"

definition float_exponent :: "c_float \<Rightarrow> nat" where
  "float_exponent w = (unat w div 2 ^ 23) mod 256"

definition float_fraction :: "c_float \<Rightarrow> nat" where
  "float_fraction w = unat w mod 2 ^ 23"

definition float_finite :: "c_float \<Rightarrow> bool" where
  "float_finite w = (float_exponent w \<noteq> 255)"

text \<open>
  The magnitude of a finite \<^verbatim>\<open>float\<close> is \<open>float_num w / float_den w\<close>: the significand
  times \<open>2\<close> to the power \<open>float_scale w - 150\<close>, a subnormal number having the scale 1 and
  no implicit leading bit. One of the two powers below is always 1.
\<close>

definition float_significand :: "c_float \<Rightarrow> nat" where
  "float_significand w =
     (if float_exponent w = 0 then float_fraction w else 2 ^ 23 + float_fraction w)"

definition float_scale :: "c_float \<Rightarrow> nat" where
  "float_scale w = (if float_exponent w = 0 then 1 else float_exponent w)"

definition float_num :: "c_float \<Rightarrow> nat" where
  "float_num w = float_significand w * 2 ^ (float_scale w - 150)"

definition float_den :: "c_float \<Rightarrow> nat" where
  "float_den w = 2 ^ (150 - float_scale w)"

text \<open>The quotient \<open>num / den\<close> rounded to the nearest natural number, a tie to the even one.\<close>

definition round_half_even :: "nat \<Rightarrow> nat \<Rightarrow> nat" where
  "round_half_even num den =
     (let q = num div den; r = num mod den
      in if 2 * r < den then q
         else if den < 2 * r then q + 1
         else if even q then q else q + 1)"

text \<open>The magnitude in hundredths, correctly rounded.\<close>

definition hundredths :: "c_float \<Rightarrow> nat" where
  "hundredths w = round_half_even (100 * float_num w) (float_den w)"

text \<open>The decimal digits of a natural number, without leading zeros.\<close>

definition digit_char :: "nat \<Rightarrow> char" where
  "digit_char d = ''0123456789'' ! d"

function dec :: "nat \<Rightarrow> string" where
  "dec n = (if n < 10 then [digit_char n] else dec (n div 10) @ [digit_char (n mod 10)])"
  by pat_completeness auto
termination
  by (relation "measure (\<lambda>n. n)") auto

declare dec.simps [simp del]

text \<open>
  The text of the conversion \<^verbatim>\<open>%.2f\<close> in the \<^verbatim>\<open>"C"\<close> locale, the only one in force since
  \<^verbatim>\<open>main\<close> never sets another: a minus sign when the sign bit is set, the digits of the
  integral part, a point, two digits. The \<^verbatim>\<open>float\<close> reaches the conversion as the
  \<^verbatim>\<open>double\<close> of the same value. For an infinity and a NaN the standard allows several
  styles; the shortest are taken here.
\<close>

definition iso_c_fmt_2f :: "c_float \<Rightarrow> string" where
  "iso_c_fmt_2f w =
     (if float_sign w then ''-'' else [])
     @ (if float_exponent w = 255
        then (if float_fraction w = 0 then ''inf'' else ''nan'')
        else dec (hundredths w div 100) @ ''.''
             @ [digit_char (hundredths w div 10 mod 10), digit_char (hundredths w mod 10)])"

subsection \<open>Sample configurations and environments\<close>

definition sample_cfg :: config where
  "sample_cfg = \<lparr>WIFI_SSID = ''rede'', WIFI_PASSWORD = ''senha'',
                  DEVICE_ID = ''bitdoglab_01'', TOPICO_PUBLICACAO_LUZ = ''luminosidade''\<rparr>"

text \<open>A device identifier of 130 bytes.\<close>

definition long_cfg :: config where
  "long_cfg = sample_cfg\<lparr>DEVICE_ID := replicate 130 (CHR ''a'')\<rparr>"

text \<open>
  The \<^verbatim>\<open>%.2f\<close> text of the three readings the samples use: 305.0f, 0.5f and 1e20f
  (whose exact value is 100000002004087734272). No sample reads another value.
\<close>

definition sample_fmt :: "c_float \<Rightarrow> string" where
  "sample_fmt w =
     (if w = 0x43988000 then ''305.00''
      else if w = 0x3F000000 then ''0.50''
      else if w = 0x60AD78EC then ''100000002004087734272.00''
      else ''0.00'')"

text \<open>
  The console attaches at the third poll, radio and association succeed, the client is
  always connected, the sensor reads 305.0f.
\<close>

definition env_online :: env where
  "env_online = \<lparr>usb_attached = (\<lambda>t. 5 \<le> length t),
                  radio_init_rc = (\<lambda>t. 0),
                  wifi_connect_rc = (\<lambda>t. 0),
                  mqtt_conectado = (\<lambda>t. True),
                  lux_reading = (\<lambda>t. 0x43988000),
                  fmt_2f = sample_fmt\<rparr>"

text \<open>The client answers false to the first two queries and true from the third on.\<close>

definition env_late :: env where
  "env_late = env_online\<lparr>mqtt_conectado := (\<lambda>t. 2 \<le> length (queries t))\<rparr>"

text \<open>The history at the end of a console wait in which the third poll found the console.\<close>

definition console_found :: trace where
  "console_found = [Ev_stdio_init_all,
                    Ev_stdio_usb_connected False, Ev_sleep_ms 100,
                    Ev_stdio_usb_connected False, Ev_sleep_ms 100,
                    Ev_stdio_usb_connected True]"

definition env_offline :: env where
  "env_offline = env_online\<lparr>mqtt_conectado := (\<lambda>t. False)\<rparr>"

definition env_no_console :: env where
  "env_no_console = env_online\<lparr>usb_attached := (\<lambda>t. False)\<rparr>"

definition env_no_radio :: env where
  "env_no_radio = env_online\<lparr>radio_init_rc := (\<lambda>t. - 1)\<rparr>"

definition env_no_wifi :: env where
  "env_no_wifi = env_online\<lparr>wifi_connect_rc := (\<lambda>t. - 2)\<rparr>"

definition env_bright :: env where
  "env_bright = env_online\<lparr>lux_reading := (\<lambda>t. 0x60AD78EC)\<rparr>"

text \<open>The two local arrays before their first use, here filled with the byte \<open>?\<close>.\<close>

definition frame0 :: frame where
  "frame0 = \<lparr>topico_completo = replicate 128 (CHR ''?''),
              payload_lux = replicate 20 (CHR ''?'')\<rparr>"

text \<open>
  Environments whose C library converts as ISO C defines it; the sensor reads 305.0f,
  0.5f and 1e16f (whose exact value is 10000000272564224).
\<close>

definition env_iso :: env where
  "env_iso = env_online\<lparr>fmt_2f := iso_c_fmt_2f\<rparr>"

definition env_half :: env where
  "env_half = env_iso\<lparr>lux_reading := (\<lambda>t. 0x3F000000)\<rparr>"

definition env_glare :: env where
  "env_glare = env_iso\<lparr>lux_reading := (\<lambda>t. 0x5A0E1BCA)\<rparr>"

section \<open>Auxiliary facts\<close>

subsection \<open>Reading a trace piecewise\<close>

lemma publishes_append: "publishes (a @ b) = publishes a @ publishes b"
  by (induction a rule: publishes.induct) simp_all

lemma restarts_append: "restarts (a @ b) = restarts a + restarts b"
  by (induction a rule: restarts.induct) simp_all

lemma queries_append: "queries (a @ b) = queries a @ queries b"
  by (induction a rule: queries.induct) simp_all

lemma sleeps_append: "sleeps (a @ b) = sleeps a @ sleeps b"
  by (induction a rule: sleeps.induct) simp_all

subsection \<open>C strings\<close>

lemma takeWhile_stop:
  "takeWhile (\<lambda>c. c \<noteq> z) (xs @ z # ys) = takeWhile (\<lambda>c. c \<noteq> z) xs"
  by (induction xs) simp_all

lemma c_str_snprintf: "0 < n \<Longrightarrow> c_str (snprintf buf n out) = c_str (take (n - 1) out)"
  by (simp add: c_str_def snprintf_def takeWhile_stop)

lemma length_c_str_take: "length (c_str (take k out)) \<le> k"
proof -
  have "length (c_str (take k out)) \<le> length (take k out)"
    unfolding c_str_def by (rule length_takeWhile_le)
  then show ?thesis by simp
qed

lemma c_str_id: "NUL \<notin> set s \<Longrightarrow> c_str s = s"
  unfolding c_str_def by (induction s) auto

lemma nul_notin_c_str: "NUL \<notin> set (c_str s)"
  unfolding c_str_def by (induction s) auto

lemma c_str_take_short: "length (c_str s) \<le> k \<Longrightarrow> c_str (take k s) = c_str s"
  unfolding c_str_def
proof (induction s arbitrary: k)
  case Nil
  then show ?case by simp
next
  case (Cons a s)
  then show ?case by (cases k) (auto split: if_splits)
qed

lemma length_snprintf: "n \<le> length buf \<Longrightarrow> length (snprintf buf n out) = length buf"
  by (auto simp: snprintf_def min_def)

lemma nul_in_snprintf:
  assumes "0 < n"
  shows "NUL \<in> set (take n (snprintf buf n out))"
proof -
  define w where "w = take (n - 1) out"
  have "length w \<le> n - 1" by (simp add: w_def)
  with assms have lw: "length w < n" by arith
  have "snprintf buf n out = w @ NUL # drop (Suc (length w)) buf"
    using assms by (simp add: snprintf_def w_def)
  then have "take n (snprintf buf n out) = w @ take (n - length w) (NUL # drop (Suc (length w)) buf)"
    using lw by simp
  moreover have "take (n - length w) (NUL # drop (Suc (length w)) buf)
                 = NUL # take (n - length w - 1) (drop (Suc (length w)) buf)"
    using lw by (cases "n - length w") simp_all
  ultimately show ?thesis by simp
qed

lemma fmt_s_slash_s_no_nul: "NUL \<notin> set (fmt_s_slash_s a b)"
  by (simp add: fmt_s_slash_s_def nul_notin_c_str)

lemma length_fmt_s_slash_s: "length (fmt_s_slash_s a b) = strlen a + 1 + strlen b"
  by (simp add: fmt_s_slash_s_def strlen_def)

lemma c_str_take_fmt: "c_str (take k (fmt_s_slash_s a b)) = take k (fmt_s_slash_s a b)"
proof (rule c_str_id)
  show "NUL \<notin> set (take k (fmt_s_slash_s a b))"
    using fmt_s_slash_s_no_nul [of a b] by (auto dest: in_set_takeD)
qed

subsection \<open>One iteration of the main loop\<close>

lemma loop_body_connected:
  "mqtt_conectado e t \<Longrightarrow>
   loop_body e cfg (fr, t) =
     (\<lparr>topico_completo = snprintf (topico_completo fr) 128
                            (fmt_s_slash_s (DEVICE_ID cfg) (TOPICO_PUBLICACAO_LUZ cfg)),
       payload_lux = snprintf (payload_lux fr) 20 (fmt_2f e (lux_at e t))\<rparr>,
      t @ [Ev_cliente_mqtt_esta_conectado True,
           Ev_bh1750_ler_lux (lux_at e t),
           Ev_printf (Log_luminosidade (lux_at e t)),
           Ev_publicar_mensagem_mqtt
             (take 127 (fmt_s_slash_s (DEVICE_ID cfg) (TOPICO_PUBLICACAO_LUZ cfg)))
             (c_str (take 19 (fmt_2f e (lux_at e t)))),
           Ev_sleep_ms 1000])"
  by (simp add: loop_body_def cliente_mqtt_esta_conectado_def bh1750_ler_lux_def printf_def
      publicar_mensagem_mqtt_def sleep_ms_def lux_at_def c_str_snprintf c_str_take_fmt Let_def)

lemma loop_body_disconnected:
  "\<not> mqtt_conectado e t \<Longrightarrow>
   loop_body e cfg (fr, t) =
     (fr, t @ [Ev_cliente_mqtt_esta_conectado False,
               Ev_printf Log_aviso_desconectado,
               Ev_iniciar_mqtt_cliente,
               Ev_sleep_ms 1000])"
  by (simp add: loop_body_def cliente_mqtt_esta_conectado_def printf_def
      iniciar_mqtt_cliente_def sleep_ms_def Let_def)

lemma cycle_events_connected:
  "mqtt_conectado e t \<Longrightarrow>
   cycle_events e cfg fr t =
     [Ev_cliente_mqtt_esta_conectado True,
      Ev_bh1750_ler_lux (lux_at e t),
      Ev_printf (Log_luminosidade (lux_at e t)),
      Ev_publicar_mensagem_mqtt
        (take 127 (fmt_s_slash_s (DEVICE_ID cfg) (TOPICO_PUBLICACAO_LUZ cfg)))
        (c_str (take 19 (fmt_2f e (lux_at e t)))),
      Ev_sleep_ms 1000]"
  by (simp add: cycle_events_def loop_body_connected)

lemma cycle_events_disconnected:
  "\<not> mqtt_conectado e t \<Longrightarrow>
   cycle_events e cfg fr t =
     [Ev_cliente_mqtt_esta_conectado False,
      Ev_printf Log_aviso_desconectado,
      Ev_iniciar_mqtt_cliente,
      Ev_sleep_ms 1000]"
  by (simp add: cycle_events_def loop_body_disconnected)

lemma loop_body_extends: "snd (loop_body e cfg (fr, t)) = t @ cycle_events e cfg fr t"
  by (cases "mqtt_conectado e t")
     (simp_all add: cycle_events_def loop_body_connected loop_body_disconnected)

subsection \<open>Several iterations\<close>

lemma cycles_0: "cycles e cfg 0 s = s"
  by (simp add: cycles_def)

lemma cycles_Suc: "cycles e cfg (Suc n) s = loop_body e cfg (cycles e cfg n s)"
  by (simp add: cycles_def)

lemma cycles_extends: "snd (cycles e cfg n (fr, t)) = t @ cycles_events e cfg n fr t"
proof (induction n)
  case 0
  then show ?case by (simp add: cycles_events_def cycles_0)
next
  case (Suc n)
  obtain fr' t' where c: "cycles e cfg n (fr, t) = (fr', t')"
    by (cases "cycles e cfg n (fr, t)")
  with Suc have t': "t' = t @ cycles_events e cfg n fr t" by simp
  have "snd (cycles e cfg (Suc n) (fr, t)) = t' @ cycle_events e cfg fr' t'"
    by (simp add: cycles_Suc c loop_body_extends)
  then show ?case
    by (simp add: cycles_events_def t')
qed

lemma cycles_events_0: "cycles_events e cfg 0 fr t = []"
  by (simp add: cycles_events_def cycles_0)

lemma cycles_events_Suc:
  "cycles_events e cfg (Suc n) fr t =
     cycles_events e cfg n fr t
       @ cycle_events e cfg (fst (cycles e cfg n (fr, t))) (snd (cycles e cfg n (fr, t)))"
proof -
  obtain fr' t' where c: "cycles e cfg n (fr, t) = (fr', t')"
    by (cases "cycles e cfg n (fr, t)")
  have t': "t' = t @ cycles_events e cfg n fr t"
    using cycles_extends [of e cfg n fr t] c by simp
  have "snd (cycles e cfg (Suc n) (fr, t)) = t' @ cycle_events e cfg fr' t'"
    by (simp add: cycles_Suc c loop_body_extends)
  then have "cycles_events e cfg (Suc n) fr t = cycles_events e cfg n fr t @ cycle_events e cfg fr' t'"
    unfolding cycles_events_def [of e cfg "Suc n"] by (simp add: t')
  then show ?thesis by (simp add: c)
qed

lemma main_loop_cycles: "main_loop e cfg n s = Unfinished (snd (cycles e cfg n s))"
proof (induction n arbitrary: s)
  case 0
  then show ?case by (simp add: cycles_0)
next
  case (Suc n)
  have "cycles e cfg (Suc n) s = cycles e cfg n (loop_body e cfg s)"
    by (simp add: cycles_def funpow_swap1)
  with Suc show ?case by simp
qed

subsection \<open>The payload pattern\<close>

lemma rest_shape:
  "(case rest of [p, a, b] \<Rightarrow> p = CHR ''.'' \<and> is_digit a \<and> is_digit b | _ \<Rightarrow> False)
   \<Longrightarrow> \<exists>a b. rest = [CHR ''.'', a, b] \<and> is_digit a \<and> is_digit b"
  by (auto split: list.splits)

lemma not_digit_nul: "\<not> is_digit NUL"
  by (simp add: is_digit_def)

lemma spec_two_decimals_no_nul:
  assumes "spec_two_decimals s"
  shows "NUL \<notin> set s"
proof -
  define u where "u = (case s of [] \<Rightarrow> [] | c # r \<Rightarrow> if c = CHR ''-'' then r else s)"
  define whole where "whole = takeWhile is_digit u"
  define rest where "rest = dropWhile is_digit u"
  from assms have r: "(case rest of [p, a, b] \<Rightarrow> p = CHR ''.'' \<and> is_digit a \<and> is_digit b | _ \<Rightarrow> False)"
    unfolding spec_two_decimals_def Let_def u_def rest_def by (rule conjunct2)
  have "\<forall>c \<in> set whole. is_digit c"
    unfolding whole_def by (auto dest: set_takeWhileD)
  with not_digit_nul have w: "NUL \<notin> set whole" by blast
  from rest_shape [OF r] not_digit_nul have rs: "NUL \<notin> set rest"
    by auto
  have "u = whole @ rest" by (simp add: whole_def rest_def)
  with w rs have nu: "NUL \<notin> set u" by simp
  show ?thesis
  proof (cases s)
    case Nil
    then show ?thesis by simp
  next
    case (Cons c r)
    show ?thesis
    proof (cases "c = CHR ''-''")
      case True
      with Cons have "u = r" by (simp add: u_def)
      with nu Cons True show ?thesis by simp
    next
      case False
      with Cons have "u = s" by (simp add: u_def)
      with nu show ?thesis by simp
    qed
  qed
qed


subsection \<open>The console wait\<close>

lemma usb_wait_trace_0: "usb_wait_trace t 0 = t"
  by (simp add: usb_wait_trace_def)

lemma usb_wait_trace_Suc:
  "usb_wait_trace t (Suc k) =
     usb_wait_trace (t @ [Ev_stdio_usb_connected False, Ev_sleep_ms 100]) k"
  by (simp add: usb_wait_trace_def)

lemma wait_usb_step_off:
  "\<not> usb_attached e t \<Longrightarrow>
   wait_usb e (Suc n) t = wait_usb e n (t @ [Ev_stdio_usb_connected False, Ev_sleep_ms 100])"
  by (simp add: stdio_usb_connected_def sleep_ms_def)

lemma wait_usb_step_on:
  "usb_attached e t \<Longrightarrow> wait_usb e (Suc n) t = Finished () (t @ [Ev_stdio_usb_connected True])"
  by (simp add: stdio_usb_connected_def)

lemma wait_usb_spinning:
  "(\<forall>j<n. \<not> usb_attached e (usb_wait_trace t j)) \<Longrightarrow>
   wait_usb e n t = Unfinished (usb_wait_trace t n)"
proof (induction n arbitrary: t)
  case 0
  then show ?case by (simp add: usb_wait_trace_0)
next
  case (Suc n)
  from Suc.prems have off: "\<not> usb_attached e t"
    using usb_wait_trace_0 [of t] by (metis zero_less_Suc)
  have "\<forall>j<n. \<not> usb_attached e
          (usb_wait_trace (t @ [Ev_stdio_usb_connected False, Ev_sleep_ms 100]) j)"
    using Suc.prems by (simp add: usb_wait_trace_Suc [symmetric])
  then show ?case
    by (simp only: wait_usb_step_off [OF off] Suc.IH usb_wait_trace_Suc)
qed

lemma wait_usb_attached:
  "k < n \<Longrightarrow> (\<forall>j<k. \<not> usb_attached e (usb_wait_trace t j)) \<Longrightarrow>
   usb_attached e (usb_wait_trace t k) \<Longrightarrow>
   wait_usb e n t = Finished () (usb_wait_trace t k @ [Ev_stdio_usb_connected True])"
proof (induction k arbitrary: n t)
  case 0
  then obtain m where "n = Suc m" by (cases n) auto
  with 0 show ?case by (simp add: usb_wait_trace_0 stdio_usb_connected_def)
next
  case (Suc k)
  then obtain m where n: "n = Suc m" and km: "k < m" by (cases n) auto
  from Suc.prems have off: "\<not> usb_attached e t"
    using usb_wait_trace_0 [of t] by (metis zero_less_Suc)
  let ?t = "t @ [Ev_stdio_usb_connected False, Ev_sleep_ms 100]"
  have a: "\<forall>j<k. \<not> usb_attached e (usb_wait_trace ?t j)"
    using Suc.prems by (simp add: usb_wait_trace_Suc [symmetric])
  have b: "usb_attached e (usb_wait_trace ?t k)"
    using Suc.prems by (simp add: usb_wait_trace_Suc)
  show ?case
    by (simp only: n wait_usb_step_off [OF off] Suc.IH [OF km a b] usb_wait_trace_Suc)
qed

lemma wait_usb_finished:
  "wait_usb e n t = Finished u t1 \<Longrightarrow>
   \<exists>k<n. (\<forall>j<k. \<not> usb_attached e (usb_wait_trace t j)) \<and> usb_attached e (usb_wait_trace t k)
          \<and> t1 = usb_wait_trace t k @ [Ev_stdio_usb_connected True]"
proof (induction n arbitrary: t)
  case 0
  then show ?case by simp
next
  case (Suc n)
  show ?case
  proof (cases "usb_attached e t")
    case True
    with Suc.prems have "t1 = t @ [Ev_stdio_usb_connected True]"
      by (simp add: stdio_usb_connected_def)
    with True show ?thesis
      by (intro exI [of _ 0]) (simp add: usb_wait_trace_0)
  next
    case False
    let ?t = "t @ [Ev_stdio_usb_connected False, Ev_sleep_ms 100]"
    from Suc.prems False have "wait_usb e n ?t = Finished u t1"
      by (simp add: stdio_usb_connected_def sleep_ms_def)
    from Suc.IH [OF this] obtain k where k: "k < n"
      "\<forall>j<k. \<not> usb_attached e (usb_wait_trace ?t j)"
      "usb_attached e (usb_wait_trace ?t k)"
      "t1 = usb_wait_trace ?t k @ [Ev_stdio_usb_connected True]" by blast
    have "\<forall>j<Suc k. \<not> usb_attached e (usb_wait_trace t j)"
    proof (intro allI impI)
      fix j assume "j < Suc k"
      then show "\<not> usb_attached e (usb_wait_trace t j)"
        using False k(2) by (cases j) (simp_all add: usb_wait_trace_0 usb_wait_trace_Suc)
    qed
    with k show ?thesis
      by (intro exI [of _ "Suc k"]) (simp add: usb_wait_trace_Suc)
  qed
qed

subsection \<open>The grace period\<close>

lemma grace_trace_0: "grace_trace t 0 = t"
  by (simp add: grace_trace_def)

lemma grace_trace_Suc:
  "grace_trace t (Suc k) =
     grace_trace (t @ [Ev_cliente_mqtt_esta_conectado False, Ev_sleep_ms 500]) k"
  by (simp add: grace_trace_def)

lemma grace_loop_step_off:
  "i < 20 \<Longrightarrow> \<not> mqtt_conectado e t \<Longrightarrow>
   grace_loop e i t =
     grace_loop e (Suc i) (t @ [Ev_cliente_mqtt_esta_conectado False, Ev_sleep_ms 500])"
  by (subst grace_loop.simps) (simp add: cliente_mqtt_esta_conectado_def sleep_ms_def)

lemma grace_loop_step_on:
  "i < 20 \<Longrightarrow> mqtt_conectado e t \<Longrightarrow>
   grace_loop e i t = t @ [Ev_cliente_mqtt_esta_conectado True]"
  by (subst grace_loop.simps) (simp add: cliente_mqtt_esta_conectado_def)

lemma grace_loop_done: "20 \<le> i \<Longrightarrow> grace_loop e i t = t"
  by (subst grace_loop.simps) simp

lemma grace_loop_skip:
  "i + k \<le> 20 \<Longrightarrow> (\<forall>j<k. \<not> mqtt_conectado e (grace_trace t j)) \<Longrightarrow>
   grace_loop e i t = grace_loop e (i + k) (grace_trace t k)"
proof (induction k arbitrary: i t)
  case 0
  then show ?case by (simp add: grace_trace_0)
next
  case (Suc k)
  from Suc.prems have off: "\<not> mqtt_conectado e t"
    using grace_trace_0 [of t] by (metis zero_less_Suc)
  from Suc.prems have i: "i < 20" and ik: "Suc i + k \<le> 20" by simp_all
  let ?t = "t @ [Ev_cliente_mqtt_esta_conectado False, Ev_sleep_ms 500]"
  have a: "\<forall>j<k. \<not> mqtt_conectado e (grace_trace ?t j)"
    using Suc.prems by (simp add: grace_trace_Suc [symmetric])
  show ?case
    by (simp add: grace_loop_step_off [OF i off] Suc.IH [OF ik a] grace_trace_Suc)
qed

text \<open>Every run of the grace loop has one of two shapes.\<close>

lemma grace_loop_shape:
  "i \<le> 20 \<Longrightarrow>
   \<exists>k. (i + k = 20 \<and> grace_loop e i t = grace_trace t k) \<or>
       (i + k < 20 \<and> grace_loop e i t = grace_trace t k @ [Ev_cliente_mqtt_esta_conectado True])"
proof (induction "20 - i" arbitrary: i t)
  case 0
  then have "i = 20" by simp
  then show ?case
    by (intro exI [of _ 0]) (simp add: grace_loop_done grace_trace_0)
next
  case (Suc m)
  then have i: "i < 20" by simp
  show ?case
  proof (cases "mqtt_conectado e t")
    case True
    with i show ?thesis
      by (intro exI [of _ 0]) (simp add: grace_loop_step_on grace_trace_0)
  next
    case False
    let ?t = "t @ [Ev_cliente_mqtt_esta_conectado False, Ev_sleep_ms 500]"
    from Suc have "m = 20 - Suc i" "Suc i \<le> 20" by simp_all
    from Suc.hyps(1) [OF this, of ?t] obtain k where
      k: "(Suc i + k = 20 \<and> grace_loop e (Suc i) ?t = grace_trace ?t k) \<or>
          (Suc i + k < 20 \<and>
           grace_loop e (Suc i) ?t = grace_trace ?t k @ [Ev_cliente_mqtt_esta_conectado True])"
      by blast
    then show ?thesis
      by (intro exI [of _ "Suc k"])
         (simp add: grace_loop_step_off [OF i False] grace_trace_Suc)
  qed
qed

lemma queries_grace_trace: "queries (grace_trace [] k) = replicate k False"
  by (induction k) (simp_all add: grace_trace_def)

lemma sleeps_grace_trace: "sleeps (grace_trace [] k) = replicate k 500"
  by (induction k) (simp_all add: grace_trace_def)

lemma grace_trace_split: "grace_trace t k = t @ grace_trace [] k"
  by (simp add: grace_trace_def)


subsection \<open>Bring-up\<close>

lemma bringup_radio_failed:
  "radio_status e t0 \<noteq> 0 \<Longrightarrow>
   bringup e cfg t0 =
     (Some (- 1),
      t0 @ [Ev_printf Log_projeto, Ev_printf Log_inicializando_hw,
            Ev_cyw43_arch_init (radio_status e t0),
            Ev_printf Log_erro_inicializar_wifi])"
  by (simp add: bringup_def radio_status_def printf_def cyw43_arch_init_def Let_def)

lemma bringup_assoc_failed:
  "radio_status e t0 = 0 \<Longrightarrow> assoc_status e t0 \<noteq> 0 \<Longrightarrow>
   bringup e cfg t0 =
     (Some (- 1),
      t0 @ [Ev_printf Log_projeto, Ev_printf Log_inicializando_hw,
            Ev_cyw43_arch_init 0,
            Ev_cyw43_arch_enable_sta_mode,
            Ev_cyw43_arch_wifi_connect_timeout_ms (WIFI_SSID cfg) (WIFI_PASSWORD cfg) 30000
              (assoc_status e t0),
            Ev_printf Log_erro_conectar_wifi])"
  by (simp add: bringup_def radio_status_def assoc_status_def printf_def cyw43_arch_init_def
      cyw43_arch_enable_sta_mode_def cyw43_arch_wifi_connect_timeout_ms_def Let_def)

lemma bringup_ok:
  "radio_status e t0 = 0 \<Longrightarrow> assoc_status e t0 = 0 \<Longrightarrow>
   bringup e cfg t0 =
     (None,
      t0 @ [Ev_printf Log_projeto, Ev_printf Log_inicializando_hw,
            Ev_cyw43_arch_init 0,
            Ev_cyw43_arch_enable_sta_mode,
            Ev_cyw43_arch_wifi_connect_timeout_ms (WIFI_SSID cfg) (WIFI_PASSWORD cfg) 30000 0,
            Ev_printf (Log_conectado_wifi (WIFI_SSID cfg)),
            Ev_i2c_init 100000,
            Ev_gpio_set_function 2, Ev_gpio_set_function 3,
            Ev_gpio_pull_up 2, Ev_gpio_pull_up 3,
            Ev_printf Log_i2c_inicializado,
            Ev_printf Log_inicializando_modulos,
            Ev_bh1750_iniciar,
            Ev_printf Log_sensor_pronto,
            Ev_iniciar_mqtt_cliente,
            Ev_printf Log_mqtt_iniciado])"
  by (simp add: bringup_def radio_status_def assoc_status_def printf_def cyw43_arch_init_def
      cyw43_arch_enable_sta_mode_def cyw43_arch_wifi_connect_timeout_ms_def i2c_init_def
      gpio_set_function_def gpio_pull_up_def bh1750_iniciar_def iniciar_mqtt_cliente_def Let_def)

lemma bringup_returns:
  "fst (bringup e cfg t0) = Some rc \<Longrightarrow>
   rc = - 1 \<and> (radio_status e t0 \<noteq> 0 \<or> radio_status e t0 = 0 \<and> assoc_status e t0 \<noteq> 0)"
  by (cases "radio_status e t0 = 0"; cases "assoc_status e t0 = 0")
     (auto simp: bringup_radio_failed bringup_assoc_failed bringup_ok)

lemma bringup_starts_with_banner: "prefix (t0 @ [Ev_printf Log_projeto]) (snd (bringup e cfg t0))"
  by (cases "radio_status e t0 = 0"; cases "assoc_status e t0 = 0")
     (simp_all add: bringup_radio_failed bringup_assoc_failed bringup_ok)

subsection \<open>\<^verbatim>\<open>main\<close> as a whole\<close>

lemma grace_report_eq:
  "grace_report e t =
     t @ [Ev_cliente_mqtt_esta_conectado (mqtt_conectado e t),
          Ev_printf (if mqtt_conectado e t then Log_mqtt_estabelecida else Log_aviso_inicial)]"
  by (simp add: grace_report_def cliente_mqtt_esta_conectado_def printf_def)

text \<open>
  The three ways \<^verbatim>\<open>main\<close> can go: still waiting for the console, ended by a failed
  bring-up, or inside the main loop.
\<close>

lemma main_console_missing:
  "wait_usb e fuel [Ev_stdio_init_all] = Unfinished t \<Longrightarrow> main e cfg fuel fr = Unfinished t"
  by (simp add: main_def stdio_init_all_def)

lemma main_bringup_failed:
  "wait_usb e fuel [Ev_stdio_init_all] = Finished u t1 \<Longrightarrow> fst (bringup e cfg t1) = Some rc \<Longrightarrow>
   main e cfg fuel fr = Finished rc (snd (bringup e cfg t1))"
  by (cases "bringup e cfg t1") (simp add: main_def stdio_init_all_def)

lemma main_bringup_ok:
  "wait_usb e fuel [Ev_stdio_init_all] = Finished u t1 \<Longrightarrow> fst (bringup e cfg t1) = None \<Longrightarrow>
   main e cfg fuel fr =
     Unfinished (snd (cycles e cfg fuel
                        (fr, grace_report e (grace_loop e 0 (snd (bringup e cfg t1))))))"
  by (cases "bringup e cfg t1") (simp add: main_def stdio_init_all_def main_loop_cycles Let_def)

lemma prefix_grace_loop: "prefix t (grace_loop e 0 t)"
  using grace_loop_shape [of 0 e t] by (auto simp: grace_trace_def)

lemma main_trace_after_console:
  assumes "wait_usb e fuel [Ev_stdio_init_all] = Finished u t1"
  shows "prefix (t1 @ [Ev_printf Log_projeto]) (trace_of (main e cfg fuel fr))"
proof (cases "fst (bringup e cfg t1)")
  case (Some rc)
  then show ?thesis
    by (simp add: main_bringup_failed [OF assms] bringup_starts_with_banner)
next
  case None
  let ?b = "snd (bringup e cfg t1)"
  have "prefix ?b (grace_loop e 0 ?b)" by (rule prefix_grace_loop)
  also have "prefix (grace_loop e 0 ?b) (grace_report e (grace_loop e 0 ?b))"
    by (simp add: grace_report_eq)
  also have "prefix (grace_report e (grace_loop e 0 ?b))
               (snd (cycles e cfg fuel (fr, grace_report e (grace_loop e 0 ?b))))"
    by (simp add: cycles_extends)
  finally have "prefix ?b (trace_of (main e cfg fuel fr))"
    by (simp add: main_bringup_ok [OF assms None])
  with bringup_starts_with_banner [of t1 e cfg] show ?thesis
    by (rule prefix_order.trans)
qed


lemma raw_steps_append: "raw_steps (a @ b) = raw_steps a @ raw_steps b"
  by (induction a) (simp_all split: option.splits)

lemma raw_steps_usb_wait: "raw_steps (usb_wait_trace [Ev_stdio_init_all] k) = []"
  by (induction k) (simp_all add: usb_wait_trace_def raw_steps_append)

lemma raw_steps_console:
  "wait_usb e fuel [Ev_stdio_init_all] = Finished u t1 \<Longrightarrow> raw_steps t1 = []"
  by (auto dest!: wait_usb_finished simp: raw_steps_append raw_steps_usb_wait)

lemma bringup_extends: "snd (bringup e cfg t0) = t0 @ bringup_events e cfg t0"
  by (cases "radio_status e t0 = 0"; cases "assoc_status e t0 = 0")
     (simp_all add: bringup_events_def bringup_radio_failed bringup_assoc_failed bringup_ok)

lemma raw_steps_after_console:
  "wait_usb e fuel [Ev_stdio_init_all] = Finished u t1 \<Longrightarrow>
   raw_steps (snd (bringup e cfg t1)) = raw_steps (bringup_events e cfg t1)"
  by (simp add: bringup_extends [of e cfg t1] raw_steps_append raw_steps_console)

lemma wait_usb_env_online: "usb_attached e = (\<lambda>t. 5 \<le> length t) \<Longrightarrow>
  wait_usb e 3 [Ev_stdio_init_all] = Finished () console_found"
  by (simp add: numeral_3_eq_3 stdio_usb_connected_def sleep_ms_def console_found_def)

subsection \<open>The sample environments\<close>

lemma env_online_on: "mqtt_conectado env_online t"
  by (simp add: env_online_def)

lemma env_offline_off: "\<not> mqtt_conectado env_offline t"
  by (simp add: env_offline_def)

lemma env_late_query: "mqtt_conectado env_late t = (2 \<le> length (queries t))"
  by (simp add: env_late_def)

lemma strlen_sample:
  "strlen (DEVICE_ID sample_cfg) = 12" "strlen (TOPICO_PUBLICACAO_LUZ sample_cfg) = 12"
  "strlen (DEVICE_ID long_cfg) = 130" "strlen (TOPICO_PUBLICACAO_LUZ long_cfg) = 12"
  by (simp_all add: strlen_def sample_cfg_def long_cfg_def c_str_id)

lemma sample_topic:
  "fmt_s_slash_s (DEVICE_ID sample_cfg) (TOPICO_PUBLICACAO_LUZ sample_cfg)
     = ''bitdoglab_01/luminosidade''"
  by (simp add: sample_cfg_def fmt_s_slash_s_def c_str_def)

lemma long_topic:
  "take 127 (fmt_s_slash_s (DEVICE_ID long_cfg) (TOPICO_PUBLICACAO_LUZ long_cfg))
     = replicate 127 (CHR ''a'')"
  by (simp add: long_cfg_def sample_cfg_def fmt_s_slash_s_def c_str_id)

lemma sample_payload: "fmt_2f env_online (lux_at env_online t) = ''305.00''"
  by (simp add: env_online_def lux_at_def sample_fmt_def)

lemma spec_two_decimals_sample: "spec_two_decimals ''305.00''"
  by (simp add: spec_two_decimals_def is_digit_def)

subsection \<open>The events of the grace loop\<close>

lemma grace_events_shape:
  "\<exists>k. (k = 20 \<and> grace_events e t = grace_trace [] k) \<or>
       (k < 20 \<and> grace_events e t = grace_trace [] k @ [Ev_cliente_mqtt_esta_conectado True])"
proof -
  from grace_loop_shape [of 0 e t] obtain k where
    "(k = 20 \<and> grace_loop e 0 t = grace_trace t k) \<or>
     (k < 20 \<and> grace_loop e 0 t = grace_trace t k @ [Ev_cliente_mqtt_esta_conectado True])"
    by auto
  then have "(k = 20 \<and> grace_events e t = grace_trace [] k) \<or>
       (k < 20 \<and> grace_events e t = grace_trace [] k @ [Ev_cliente_mqtt_esta_conectado True])"
    by (auto simp: grace_events_def grace_trace_def)
  then show ?thesis ..
qed

lemma grace_events_early:
  assumes "k < 20" "\<forall>j<k. \<not> mqtt_conectado e (grace_trace t j)" "mqtt_conectado e (grace_trace t k)"
  shows "grace_events e t = grace_trace [] k @ [Ev_cliente_mqtt_esta_conectado True]"
proof -
  from assms(1) have "0 + k \<le> 20" by simp
  from grace_loop_skip [OF this assms(2)]
  have "grace_loop e 0 t = grace_loop e k (grace_trace t k)" by simp
  also have "\<dots> = grace_trace t k @ [Ev_cliente_mqtt_esta_conectado True]"
    using assms(1,3) by (rule grace_loop_step_on)
  finally show ?thesis
    by (simp add: grace_events_def grace_trace_def)
qed

lemma grace_events_never:
  assumes "\<forall>j<20. \<not> mqtt_conectado e (grace_trace t j)"
  shows "grace_events e t = grace_trace [] 20"
proof -
  have "0 + 20 \<le> (20::nat)" by simp
  from grace_loop_skip [OF this assms]
  have "grace_loop e 0 t = grace_loop e 20 (grace_trace t 20)" by simp
  also have "\<dots> = grace_trace t 20" by (simp add: grace_loop_done)
  finally show ?thesis
    by (simp add: grace_events_def grace_trace_def)
qed

subsection \<open>The \<^verbatim>\<open>%.2f\<close> conversion of ISO C\<close>

lemma is_digit_digit_char: "d < 10 \<Longrightarrow> is_digit (digit_char d)"
  unfolding is_digit_def digit_char_def by (rule nth_mem) simp

lemma dec_digits: "dec n \<noteq> [] \<and> (\<forall>c\<in>set (dec n). is_digit c)"
proof (induction n rule: dec.induct)
  case (1 n)
  show ?case
  proof (cases "n < 10")
    case True
    then show ?thesis
      by (subst (1 2) dec.simps) (simp add: is_digit_digit_char)
  next
    case False
    have "is_digit (digit_char (n mod 10))" by (simp add: is_digit_digit_char)
    with False 1 show ?thesis
      by (subst (1 2) dec.simps) simp
  qed
qed

lemma not_digit_point: "\<not> is_digit (CHR ''.'')"
  by (simp add: is_digit_def)

lemma not_digit_minus: "\<not> is_digit (CHR ''-'')"
  by (simp add: is_digit_def)

lemma digits_point_two:
  assumes "\<forall>c\<in>set ds. is_digit c"
  shows "takeWhile is_digit (ds @ CHR ''.'' # r) = ds"
    and "dropWhile is_digit (ds @ CHR ''.'' # r) = CHR ''.'' # r"
  using assms by (simp_all add: takeWhile_append2 dropWhile_append2 not_digit_point)

lemma spec_two_decimals_unsigned:
  assumes "ds \<noteq> []" "\<forall>c\<in>set ds. is_digit c" "is_digit a" "is_digit b"
  shows "spec_two_decimals (ds @ CHR ''.'' # [a, b])"
proof -
  from assms(1) obtain d ds' where ds: "ds = d # ds'" by (cases ds) auto
  with assms(2) have "is_digit d" by simp
  with not_digit_minus have "d \<noteq> CHR ''-''" by auto
  then have u: "(case ds @ CHR ''.'' # [a, b] of [] \<Rightarrow> []
                 | c # r \<Rightarrow> if c = CHR ''-'' then r else ds @ CHR ''.'' # [a, b])
                = ds @ CHR ''.'' # [a, b]"
    by (simp add: ds)
  show ?thesis
    unfolding spec_two_decimals_def u Let_def
    using assms by (simp add: digits_point_two not_digit_point)
qed

lemma spec_two_decimals_signed:
  assumes "ds \<noteq> []" "\<forall>c\<in>set ds. is_digit c" "is_digit a" "is_digit b"
  shows "spec_two_decimals (CHR ''-'' # ds @ CHR ''.'' # [a, b])"
  unfolding spec_two_decimals_def Let_def
  using assms by (simp add: digits_point_two not_digit_point)

lemma iso_c_fmt_2f_pattern:
  assumes "float_finite w"
  shows "spec_two_decimals (iso_c_fmt_2f w)"
proof -
  let ?h = "hundredths w"
  have a: "is_digit (digit_char (?h div 10 mod 10))" and b: "is_digit (digit_char (?h mod 10))"
    by (simp_all add: is_digit_digit_char)
  note d = dec_digits [of "?h div 100"]
  show ?thesis
  proof (cases "float_sign w")
    case True
    with assms have "iso_c_fmt_2f w = CHR ''-'' # dec (?h div 100) @ CHR ''.'' #
        [digit_char (?h div 10 mod 10), digit_char (?h mod 10)]"
      by (simp add: iso_c_fmt_2f_def float_finite_def)
    with d a b show ?thesis by (simp add: spec_two_decimals_signed)
  next
    case False
    with assms have "iso_c_fmt_2f w = dec (?h div 100) @ CHR ''.'' #
        [digit_char (?h div 10 mod 10), digit_char (?h mod 10)]"
      by (simp add: iso_c_fmt_2f_def float_finite_def)
    with d a b show ?thesis by (simp add: spec_two_decimals_unsigned)
  qed
qed

lemmas float_eval =
  iso_c_fmt_2f_def float_sign_def float_exponent_def float_fraction_def float_finite_def
  float_significand_def float_scale_def float_num_def float_den_def round_half_even_def
  hundredths_def digit_char_def dec.simps Let_def

lemma iso_c_fmt_2f_samples:
  "iso_c_fmt_2f 0x43988000 = ''305.00''"
  "iso_c_fmt_2f 0x3F000000 = ''0.50''"
  "iso_c_fmt_2f 0x5A0E1BCA = ''10000000272564224.00''"
  by (simp_all add: float_eval)

lemma float_samples:
  "float_num 0x43988000 = 305 * float_den 0x43988000" "\<not> float_sign 0x43988000"
  "2 * float_num 0x3F000000 = float_den 0x3F000000" "\<not> float_sign 0x3F000000"
  "float_finite 0x43988000" "float_finite 0x3F000000" "float_finite 0x5A0E1BCA"
  by (simp_all add: float_eval)

lemma env_iso_on: "mqtt_conectado env_iso t" "mqtt_conectado env_half t" "mqtt_conectado env_glare t"
  by (simp_all add: env_iso_def env_half_def env_glare_def env_online_def)

lemma env_iso_fmt: "fmt_2f env_iso = iso_c_fmt_2f" "fmt_2f env_half = iso_c_fmt_2f"
  "fmt_2f env_glare = iso_c_fmt_2f"
  by (simp_all add: env_iso_def env_half_def env_glare_def)

lemma env_iso_lux: "lux_at env_iso t = 0x43988000" "lux_at env_half t = 0x3F000000"
  "lux_at env_glare t = 0x5A0E1BCA"
  by (simp_all add: lux_at_def env_iso_def env_half_def env_glare_def env_online_def)

section \<open>The claims\<close>

subsection \<open>C1: a connected iteration publishes once\<close>

text \<open>
  Claim C1, as the code has it. In an iteration of the main loop whose connectivity
  query answers true there is exactly one publish call. Its topic is the first 127
  bytes of \<^verbatim>\<open>DEVICE_ID\<close>, a slash and \<^verbatim>\<open>TOPICO_PUBLICACAO_LUZ\<close>, which is the whole
  concatenation when that has at most 127 bytes. Its payload is the first 19 bytes of
  the \<^verbatim>\<open>%.2f\<close> text of the reading; when that text has the two-decimals pattern and at
  most 19 bytes, the payload is that text and so has the pattern.
\<close>

theorem connected_cycle_publishes_once:
  assumes "mqtt_conectado e t"
  shows "publishes (cycle_events e cfg fr t) =
           [(take 127 (fmt_s_slash_s (DEVICE_ID cfg) (TOPICO_PUBLICACAO_LUZ cfg)),
             c_str (take 19 (fmt_2f e (lux_at e t))))]
         \<and> (strlen (DEVICE_ID cfg) + 1 + strlen (TOPICO_PUBLICACAO_LUZ cfg) \<le> 127 \<longrightarrow>
              take 127 (fmt_s_slash_s (DEVICE_ID cfg) (TOPICO_PUBLICACAO_LUZ cfg))
                = fmt_s_slash_s (DEVICE_ID cfg) (TOPICO_PUBLICACAO_LUZ cfg))
         \<and> (NUL \<notin> set (DEVICE_ID cfg) \<and> NUL \<notin> set (TOPICO_PUBLICACAO_LUZ cfg) \<longrightarrow>
              fmt_s_slash_s (DEVICE_ID cfg) (TOPICO_PUBLICACAO_LUZ cfg)
                = DEVICE_ID cfg @ ''/'' @ TOPICO_PUBLICACAO_LUZ cfg)
         \<and> (spec_two_decimals (fmt_2f e (lux_at e t)) \<and> length (fmt_2f e (lux_at e t)) \<le> 19 \<longrightarrow>
              c_str (take 19 (fmt_2f e (lux_at e t))) = fmt_2f e (lux_at e t)
              \<and> spec_two_decimals (c_str (take 19 (fmt_2f e (lux_at e t)))))"
proof (intro conjI impI)
  show "publishes (cycle_events e cfg fr t) =
           [(take 127 (fmt_s_slash_s (DEVICE_ID cfg) (TOPICO_PUBLICACAO_LUZ cfg)),
             c_str (take 19 (fmt_2f e (lux_at e t))))]"
    using assms by (simp add: cycle_events_connected)
next
  assume "strlen (DEVICE_ID cfg) + 1 + strlen (TOPICO_PUBLICACAO_LUZ cfg) \<le> 127"
  then show "take 127 (fmt_s_slash_s (DEVICE_ID cfg) (TOPICO_PUBLICACAO_LUZ cfg))
                = fmt_s_slash_s (DEVICE_ID cfg) (TOPICO_PUBLICACAO_LUZ cfg)"
    by (simp add: length_fmt_s_slash_s)
next
  assume "NUL \<notin> set (DEVICE_ID cfg) \<and> NUL \<notin> set (TOPICO_PUBLICACAO_LUZ cfg)"
  then show "fmt_s_slash_s (DEVICE_ID cfg) (TOPICO_PUBLICACAO_LUZ cfg)
                = DEVICE_ID cfg @ ''/'' @ TOPICO_PUBLICACAO_LUZ cfg"
    by (simp add: fmt_s_slash_s_def c_str_id)
next
  assume a: "spec_two_decimals (fmt_2f e (lux_at e t)) \<and> length (fmt_2f e (lux_at e t)) \<le> 19"
  then have "NUL \<notin> set (fmt_2f e (lux_at e t))"
    by (simp add: spec_two_decimals_no_nul)
  with a show eq: "c_str (take 19 (fmt_2f e (lux_at e t))) = fmt_2f e (lux_at e t)"
    by (simp add: c_str_id)
  from a show "spec_two_decimals (c_str (take 19 (fmt_2f e (lux_at e t))))"
    by (simp only: eq)
qed

theorem connected_cycle_publishes_once_witness:
  "mqtt_conectado env_online []
   \<and> publishes (cycle_events env_online sample_cfg frame0 []) = [(''bitdoglab_01/luminosidade'', ''305.00'')]
   \<and> spec_two_decimals ''305.00''"
proof -
  have c: "mqtt_conectado env_online []" by (simp add: env_online_def)
  from connected_cycle_publishes_once [OF c, of sample_cfg frame0] c
  show ?thesis
    by (simp add: sample_topic sample_payload c_str_def spec_two_decimals_sample)
qed

text \<open>
  Claim C1 as written fails in two ways. With a device identifier of 130 bytes the
  published topic is 127 letters, not the concatenation. With the reading 1e20f, whose
  \<^verbatim>\<open>%.2f\<close> text has 24 bytes, the published payload is the first 19 digits and has no
  decimal point.
\<close>

theorem connected_cycle_counterexample:
  "mqtt_conectado env_bright []
   \<and> publishes (cycle_events env_bright long_cfg frame0 []) =
       [(replicate 127 (CHR ''a''), ''1000000020040877342'')]
   \<and> replicate 127 (CHR ''a'') \<noteq> DEVICE_ID long_cfg @ ''/'' @ TOPICO_PUBLICACAO_LUZ long_cfg
   \<and> \<not> spec_two_decimals ''1000000020040877342''"
proof (intro conjI)
  show c: "mqtt_conectado env_bright []"
    by (simp add: env_bright_def env_online_def)
  have topic: "take 127 (fmt_s_slash_s (DEVICE_ID long_cfg) (TOPICO_PUBLICACAO_LUZ long_cfg))
                 = replicate 127 (CHR ''a'')"
    by (simp add: long_cfg_def sample_cfg_def fmt_s_slash_s_def c_str_id)
  have payload: "c_str (take 19 (fmt_2f env_bright (lux_at env_bright []))) = ''1000000020040877342''"
    by (simp add: env_bright_def env_online_def lux_at_def sample_fmt_def c_str_def)
  show "publishes (cycle_events env_bright long_cfg frame0 []) =
          [(replicate 127 (CHR ''a''), ''1000000020040877342'')]"
    by (simp add: cycle_events_connected [OF c] topic payload)
  have "length (replicate 127 (CHR ''a'')) \<noteq>
        length (DEVICE_ID long_cfg @ ''/'' @ TOPICO_PUBLICACAO_LUZ long_cfg)"
    by (simp add: long_cfg_def sample_cfg_def)
  then show "replicate 127 (CHR ''a'') \<noteq> DEVICE_ID long_cfg @ ''/'' @ TOPICO_PUBLICACAO_LUZ long_cfg"
    by metis
  show "\<not> spec_two_decimals ''1000000020040877342''"
    by (simp add: spec_two_decimals_def is_digit_def)
qed

subsection \<open>C2: a disconnected iteration restarts once\<close>

text \<open>
  Claim C2. In an iteration whose connectivity query answers false there is no publish
  call and exactly one call of \<^verbatim>\<open>iniciar_mqtt_cliente\<close>; an iteration with a publish
  call is one whose query answered true; and over any number \<open>n\<close> of consecutive
  iterations that all find the client disconnected there are \<open>n\<close> restarts, each followed
  by the same sleep of 1000 ms: one attempt per iteration, no growing delay, no cap.
\<close>

theorem disconnected_cycle_restarts_once:
  "(\<not> mqtt_conectado e t \<longrightarrow>
      publishes (cycle_events e cfg fr t) = [] \<and> restarts (cycle_events e cfg fr t) = 1)
   \<and> (publishes (cycle_events e cfg fr t) \<noteq> [] \<longrightarrow> mqtt_conectado e t)
   \<and> ((\<forall>i<n. \<not> mqtt_conectado e (snd (cycles e cfg i (fr, t)))) \<longrightarrow>
        publishes (cycles_events e cfg n fr t) = []
        \<and> restarts (cycles_events e cfg n fr t) = n
        \<and> sleeps (cycles_events e cfg n fr t) = replicate n 1000)"
proof (intro conjI impI)
  assume "\<not> mqtt_conectado e t"
  then show "publishes (cycle_events e cfg fr t) = []"
    and "restarts (cycle_events e cfg fr t) = 1"
    by (simp_all add: cycle_events_disconnected)
next
  assume "publishes (cycle_events e cfg fr t) \<noteq> []"
  then show "mqtt_conectado e t"
    by (rule contrapos_np) (simp add: cycle_events_disconnected)
next
  assume "\<forall>i<n. \<not> mqtt_conectado e (snd (cycles e cfg i (fr, t)))"
  then have "publishes (cycles_events e cfg n fr t) = []
        \<and> restarts (cycles_events e cfg n fr t) = n
        \<and> sleeps (cycles_events e cfg n fr t) = replicate n 1000"
  proof (induction n)
    case 0
    then show ?case by (simp add: cycles_events_0)
  next
    case (Suc n)
    then have off: "\<not> mqtt_conectado e (snd (cycles e cfg n (fr, t)))" by simp
    from Suc have ih: "publishes (cycles_events e cfg n fr t) = []
        \<and> restarts (cycles_events e cfg n fr t) = n
        \<and> sleeps (cycles_events e cfg n fr t) = replicate n 1000" by simp
    show ?case
      by (simp add: cycles_events_Suc cycle_events_disconnected [OF off] ih
          publishes_append restarts_append sleeps_append replicate_append_same)
  qed
  then show "publishes (cycles_events e cfg n fr t) = []"
    and "restarts (cycles_events e cfg n fr t) = n"
    and "sleeps (cycles_events e cfg n fr t) = replicate n 1000"
    by simp_all
qed

theorem disconnected_cycle_restarts_once_witness:
  "\<not> mqtt_conectado env_offline []
   \<and> publishes (cycle_events env_offline sample_cfg frame0 []) = []
   \<and> restarts (cycle_events env_offline sample_cfg frame0 []) = 1
   \<and> restarts (cycles_events env_offline sample_cfg 3 frame0 []) = 3
   \<and> sleeps (cycles_events env_offline sample_cfg 3 frame0 []) = [1000, 1000, 1000]"
  using disconnected_cycle_restarts_once [of env_offline "[]" sample_cfg frame0 3]
  by (simp add: env_offline_off numeral_3_eq_3)

subsection \<open>C3: the grace loop\<close>

text \<open>
  Claim C3. The loop of lines 73 to 75 queries the client at most 20 times, sleeps 500 ms
  after each query that answered false, and so sleeps at most 10000 ms in total. When the
  query number \<open>k + 1\<close> (with \<open>k < 20\<close>) is the first to answer true, the loop makes exactly
  \<open>k + 1\<close> queries and \<open>k\<close> sleeps and ends there; when all 20 answer false it makes 20
  queries and sleeps 10000 ms. Afterwards line 77 queries the client once more, outside
  the loop, and logs success or the warning; \<^verbatim>\<open>main\<close> then enters the main loop in both
  cases.
\<close>

theorem grace_loop_bounded_and_early:
  "length (queries (grace_events e t)) \<le> 20
   \<and> sleeps (grace_events e t) = replicate (length (sleeps (grace_events e t))) 500
   \<and> sum_list (sleeps (grace_events e t)) \<le> 10000
   \<and> (k < 20 \<and> (\<forall>j<k. \<not> mqtt_conectado e (grace_trace t j)) \<and> mqtt_conectado e (grace_trace t k) \<longrightarrow>
        grace_events e t = grace_trace [] k @ [Ev_cliente_mqtt_esta_conectado True]
        \<and> queries (grace_events e t) = replicate k False @ [True]
        \<and> length (queries (grace_events e t)) = Suc k
        \<and> sleeps (grace_events e t) = replicate k 500)
   \<and> ((\<forall>j<20. \<not> mqtt_conectado e (grace_trace t j)) \<longrightarrow>
        grace_events e t = grace_trace [] 20
        \<and> queries (grace_events e t) = replicate 20 False
        \<and> sleeps (grace_events e t) = replicate 20 500
        \<and> sum_list (sleeps (grace_events e t)) = 10000)
   \<and> grace_report e tr =
        tr @ [Ev_cliente_mqtt_esta_conectado (mqtt_conectado e tr),
              Ev_printf (if mqtt_conectado e tr then Log_mqtt_estabelecida else Log_aviso_inicial)]
   \<and> (wait_usb e fuel [Ev_stdio_init_all] = Finished u tc \<and> fst (bringup e cfg tc) = None \<longrightarrow>
        main e cfg fuel fr =
          Unfinished (snd (cycles e cfg fuel
                             (fr, grace_report e (grace_loop e 0 (snd (bringup e cfg tc)))))))"
proof (intro conjI impI)
  obtain m where m:
    "(m = 20 \<and> grace_events e t = grace_trace [] m) \<or>
     (m < 20 \<and> grace_events e t = grace_trace [] m @ [Ev_cliente_mqtt_esta_conectado True])"
    using grace_events_shape by blast
  from m show "length (queries (grace_events e t)) \<le> 20"
    by (auto simp: queries_append queries_grace_trace)
  from m show "sleeps (grace_events e t) = replicate (length (sleeps (grace_events e t))) 500"
    by (auto simp: sleeps_append sleeps_grace_trace)
  from m show "sum_list (sleeps (grace_events e t)) \<le> 10000"
    by (auto simp: sleeps_append sleeps_grace_trace sum_list_replicate)
next
  assume a: "k < 20 \<and> (\<forall>j<k. \<not> mqtt_conectado e (grace_trace t j)) \<and> mqtt_conectado e (grace_trace t k)"
  then show ev: "grace_events e t = grace_trace [] k @ [Ev_cliente_mqtt_esta_conectado True]"
    by (simp add: grace_events_early)
  show "queries (grace_events e t) = replicate k False @ [True]"
    by (simp add: ev queries_append queries_grace_trace)
  show "length (queries (grace_events e t)) = Suc k"
    by (simp add: ev queries_append queries_grace_trace)
  show "sleeps (grace_events e t) = replicate k 500"
    by (simp add: ev sleeps_append sleeps_grace_trace)
next
  assume "\<forall>j<20. \<not> mqtt_conectado e (grace_trace t j)"
  then show ev: "grace_events e t = grace_trace [] 20"
    by (rule grace_events_never)
  show "queries (grace_events e t) = replicate 20 False"
    by (simp only: ev queries_grace_trace)
  show "sleeps (grace_events e t) = replicate 20 500"
    by (simp only: ev sleeps_grace_trace)
  show "sum_list (sleeps (grace_events e t)) = 10000"
    by (simp only: ev sleeps_grace_trace sum_list_replicate) simp
next
  show "grace_report e tr =
        tr @ [Ev_cliente_mqtt_esta_conectado (mqtt_conectado e tr),
              Ev_printf (if mqtt_conectado e tr then Log_mqtt_estabelecida else Log_aviso_inicial)]"
    by (rule grace_report_eq)
next
  assume "wait_usb e fuel [Ev_stdio_init_all] = Finished u tc \<and> fst (bringup e cfg tc) = None"
  then show "main e cfg fuel fr =
          Unfinished (snd (cycles e cfg fuel
                             (fr, grace_report e (grace_loop e 0 (snd (bringup e cfg tc))))))"
    by (simp add: main_bringup_ok)
qed

theorem grace_loop_bounded_and_early_witness:
  "grace_events env_late console_found =
     [Ev_cliente_mqtt_esta_conectado False, Ev_sleep_ms 500,
      Ev_cliente_mqtt_esta_conectado False, Ev_sleep_ms 500,
      Ev_cliente_mqtt_esta_conectado True]
   \<and> length (queries (grace_events env_late console_found)) = 3
   \<and> length (queries (grace_events env_offline console_found)) = 20
   \<and> sum_list (sleeps (grace_events env_offline console_found)) = 10000"
proof -
  have h1: "2 < (20::nat) \<and> (\<forall>j<2. \<not> mqtt_conectado env_late (grace_trace console_found j))
            \<and> mqtt_conectado env_late (grace_trace console_found 2)"
    by (simp add: env_late_query console_found_def grace_trace_def queries_append
        numeral_2_eq_2 All_less_Suc)
  have h2: "\<forall>j<20. \<not> mqtt_conectado env_offline (grace_trace console_found j)"
    by (simp add: env_offline_off)
  note late = grace_loop_bounded_and_early [where e = env_late and t = console_found and k = 2]
  note never = grace_loop_bounded_and_early [where e = env_offline and t = console_found]
  from late h1 have a:
    "grace_events env_late console_found =
       grace_trace [] 2 @ [Ev_cliente_mqtt_esta_conectado True]"
    "length (queries (grace_events env_late console_found)) = Suc 2"
    by blast+
  from never h2 have b:
    "queries (grace_events env_offline console_found) = replicate 20 False"
    "sum_list (sleeps (grace_events env_offline console_found)) = 10000"
    by blast+
  show ?thesis
    by (simp add: a b grace_trace_def numeral_2_eq_2)
qed

subsection \<open>C4: the order of the bring-up and its two aborts\<close>

text \<open>
  Claim C4. The bring-up performs radio initialisation, station mode, association, bus
  initialisation, sensor initialisation and client initialisation in this order. When
  the radio answers non-zero it returns -1 after the one call of the radio step; when
  the association answers non-zero it returns -1 after one call each of the first three
  steps; \<^verbatim>\<open>main\<close> then ends with -1, and the calls of its whole trace that belong to a
  step are these alone: no later step and no second attempt.
\<close>

theorem bringup_ordered_and_fail_fast:
  "(radio_status e t \<noteq> 0 \<longrightarrow>
      fst (bringup e cfg t) = Some (- 1)
      \<and> raw_steps (bringup_events e cfg t) = [Radio_init]
      \<and> last (bringup_events e cfg t) = Ev_printf Log_erro_inicializar_wifi)
   \<and> (radio_status e t = 0 \<and> assoc_status e t \<noteq> 0 \<longrightarrow>
      fst (bringup e cfg t) = Some (- 1)
      \<and> raw_steps (bringup_events e cfg t) = [Radio_init, Station_mode, Association]
      \<and> last (bringup_events e cfg t) = Ev_printf Log_erro_conectar_wifi)
   \<and> (radio_status e t = 0 \<and> assoc_status e t = 0 \<longrightarrow>
      fst (bringup e cfg t) = None
      \<and> steps (bringup_events e cfg t) =
          [Radio_init, Station_mode, Association, Bus_init, Sensor_init, Message_client_init]
      \<and> raw_steps (bringup_events e cfg t) =
          [Radio_init, Station_mode, Association,
           Bus_init, Bus_init, Bus_init, Bus_init, Bus_init,
           Sensor_init, Message_client_init])
   \<and> (wait_usb e fuel [Ev_stdio_init_all] = Finished u tc
        \<and> (radio_status e tc \<noteq> 0 \<or> assoc_status e tc \<noteq> 0) \<longrightarrow>
      main e cfg fuel fr = Finished (- 1) (snd (bringup e cfg tc))
      \<and> raw_steps (trace_of (main e cfg fuel fr)) =
          (if radio_status e tc \<noteq> 0 then [Radio_init]
           else [Radio_init, Station_mode, Association]))"
proof (intro conjI impI)
  assume a: "radio_status e t \<noteq> 0"
  then show "fst (bringup e cfg t) = Some (- 1)"
    and "raw_steps (bringup_events e cfg t) = [Radio_init]"
    and "last (bringup_events e cfg t) = Ev_printf Log_erro_inicializar_wifi"
    by (simp_all add: bringup_events_def bringup_radio_failed steps_def)
next
  assume a: "radio_status e t = 0 \<and> assoc_status e t \<noteq> 0"
  then show "fst (bringup e cfg t) = Some (- 1)"
    and "raw_steps (bringup_events e cfg t) = [Radio_init, Station_mode, Association]"
    and "last (bringup_events e cfg t) = Ev_printf Log_erro_conectar_wifi"
    by (simp_all add: bringup_events_def bringup_assoc_failed steps_def)
next
  assume a: "radio_status e t = 0 \<and> assoc_status e t = 0"
  then show "fst (bringup e cfg t) = None"
    and "steps (bringup_events e cfg t) =
          [Radio_init, Station_mode, Association, Bus_init, Sensor_init, Message_client_init]"
    and "raw_steps (bringup_events e cfg t) =
          [Radio_init, Station_mode, Association,
           Bus_init, Bus_init, Bus_init, Bus_init, Bus_init,
           Sensor_init, Message_client_init]"
    by (simp_all add: bringup_events_def bringup_ok steps_def)
next
  assume a: "wait_usb e fuel [Ev_stdio_init_all] = Finished u tc
        \<and> (radio_status e tc \<noteq> 0 \<or> assoc_status e tc \<noteq> 0)"
  then have w: "wait_usb e fuel [Ev_stdio_init_all] = Finished u tc" by simp
  from a have f: "fst (bringup e cfg tc) = Some (- 1)"
    by (cases "radio_status e tc = 0") (auto simp: bringup_radio_failed bringup_assoc_failed)
  show m: "main e cfg fuel fr = Finished (- 1) (snd (bringup e cfg tc))"
    by (rule main_bringup_failed [OF w f])
  have s: "raw_steps (trace_of (main e cfg fuel fr)) = raw_steps (bringup_events e cfg tc)"
    by (simp only: m trace_of.simps raw_steps_after_console [OF w])
  from a show "raw_steps (trace_of (main e cfg fuel fr)) =
          (if radio_status e tc \<noteq> 0 then [Radio_init]
           else [Radio_init, Station_mode, Association])"
    unfolding s
    by (cases "radio_status e tc = 0")
       (auto simp: bringup_events_def bringup_radio_failed bringup_assoc_failed steps_def)
qed

theorem bringup_ordered_and_fail_fast_witness:
  "main env_no_radio sample_cfg 3 frame0 =
     Finished (- 1) (console_found @
       [Ev_printf Log_projeto, Ev_printf Log_inicializando_hw,
        Ev_cyw43_arch_init (- 1), Ev_printf Log_erro_inicializar_wifi])
   \<and> raw_steps (trace_of (main env_no_radio sample_cfg 3 frame0)) = [Radio_init]
   \<and> raw_steps (trace_of (main env_no_wifi sample_cfg 3 frame0)) =
       [Radio_init, Station_mode, Association]
   \<and> steps (bringup_events env_online sample_cfg console_found) =
       [Radio_init, Station_mode, Association, Bus_init, Sensor_init, Message_client_init]"
proof -
  have w1: "wait_usb env_no_radio 3 [Ev_stdio_init_all] = Finished () console_found"
    by (rule wait_usb_env_online) (simp add: env_no_radio_def env_online_def)
  have w2: "wait_usb env_no_wifi 3 [Ev_stdio_init_all] = Finished () console_found"
    by (rule wait_usb_env_online) (simp add: env_no_wifi_def env_online_def)
  have r1: "radio_status env_no_radio console_found = - 1"
    by (simp add: radio_status_def env_no_radio_def env_online_def)
  have r2: "radio_status env_no_wifi console_found = 0" "assoc_status env_no_wifi console_found = - 2"
    by (simp_all add: radio_status_def assoc_status_def env_no_wifi_def env_online_def)
  have r3: "radio_status env_online console_found = 0" "assoc_status env_online console_found = 0"
    by (simp_all add: radio_status_def assoc_status_def env_online_def)
  note a = bringup_ordered_and_fail_fast
             [where e = env_no_radio and t = console_found and tc = console_found
                and fuel = 3 and u = "()" and cfg = sample_cfg and fr = frame0]
  note b = bringup_ordered_and_fail_fast
             [where e = env_no_wifi and t = console_found and tc = console_found
                and fuel = 3 and u = "()" and cfg = sample_cfg and fr = frame0]
  note c = bringup_ordered_and_fail_fast
             [where e = env_online and t = console_found and tc = console_found
                and fuel = 3 and u = "()" and cfg = sample_cfg and fr = frame0]
  have n1: "radio_status env_no_radio console_found \<noteq> 0" by (simp add: r1)
  have n2: "assoc_status env_no_wifi console_found \<noteq> 0" by (simp add: r2)
  from a w1 n1 have a0: "main env_no_radio sample_cfg 3 frame0 =
      Finished (- 1) (snd (bringup env_no_radio sample_cfg console_found))
    \<and> raw_steps (trace_of (main env_no_radio sample_cfg 3 frame0)) =
          (if radio_status env_no_radio console_found \<noteq> 0 then [Radio_init]
           else [Radio_init, Station_mode, Association])"
    by blast
  note a1 = a0 [THEN conjunct1]
  from a0 [THEN conjunct2] n1
  have a2: "raw_steps (trace_of (main env_no_radio sample_cfg 3 frame0)) = [Radio_init]"
    by simp
  from b w2 n2 have b0: "raw_steps (trace_of (main env_no_wifi sample_cfg 3 frame0)) =
          (if radio_status env_no_wifi console_found \<noteq> 0 then [Radio_init]
           else [Radio_init, Station_mode, Association])"
    by blast
  then have b': "raw_steps (trace_of (main env_no_wifi sample_cfg 3 frame0)) =
       [Radio_init, Station_mode, Association]"
    by (simp add: r2)
  from c r3 have c': "steps (bringup_events env_online sample_cfg console_found) =
       [Radio_init, Station_mode, Association, Bus_init, Sensor_init, Message_client_init]"
    by blast
  have "snd (bringup env_no_radio sample_cfg console_found) = console_found @
       [Ev_printf Log_projeto, Ev_printf Log_inicializando_hw,
        Ev_cyw43_arch_init (- 1), Ev_printf Log_erro_inicializar_wifi]"
    using r1 by (simp add: bringup_radio_failed)
  with a1 a2 b' c' show ?thesis by (simp only: simp_thms)
qed

subsection \<open>C5: the published payload\<close>

text \<open>
  Claim C5, as the code has it. In every connected iteration the published payload is
  the first 19 bytes of the C library's \<^verbatim>\<open>%.2f\<close> text of the reading, and is all of
  that text when it has at most 19 bytes. When the library converts as ISO C defines it,
  every finite reading whose text has at most 19 bytes is published as a base-10 decimal
  with a point and exactly two fractional digits; the reading 305.0 is published as
  \<open>305.00\<close> and the reading 0.5 as \<open>0.50\<close>.
\<close>

theorem payload_is_the_bounded_rendering:
  assumes "mqtt_conectado e t"
  shows "map snd (publishes (cycle_events e cfg fr t)) = [c_str (take 19 (fmt_2f e (lux_at e t)))]
     \<and> (NUL \<notin> set (fmt_2f e (lux_at e t)) \<and> length (fmt_2f e (lux_at e t)) \<le> 19 \<longrightarrow>
          map snd (publishes (cycle_events e cfg fr t)) = [fmt_2f e (lux_at e t)])
     \<and> (fmt_2f e (lux_at e t) = iso_c_fmt_2f (lux_at e t) \<and> float_finite (lux_at e t)
          \<and> length (iso_c_fmt_2f (lux_at e t)) \<le> 19 \<longrightarrow>
          map snd (publishes (cycle_events e cfg fr t)) = [iso_c_fmt_2f (lux_at e t)]
          \<and> spec_two_decimals (iso_c_fmt_2f (lux_at e t)))
     \<and> (fmt_2f e (lux_at e t) = iso_c_fmt_2f (lux_at e t) \<and> lux_at e t = 0x43988000 \<longrightarrow>
          map snd (publishes (cycle_events e cfg fr t)) = [''305.00''])
     \<and> (fmt_2f e (lux_at e t) = iso_c_fmt_2f (lux_at e t) \<and> lux_at e t = 0x3F000000 \<longrightarrow>
          map snd (publishes (cycle_events e cfg fr t)) = [''0.50''])
     \<and> (float_finite w \<longrightarrow> spec_two_decimals (iso_c_fmt_2f w))
     \<and> float_num 0x43988000 = 305 * float_den 0x43988000 \<and> \<not> float_sign 0x43988000
     \<and> 2 * float_num 0x3F000000 = float_den 0x3F000000 \<and> \<not> float_sign 0x3F000000"
proof -
  let ?txt = "fmt_2f e (lux_at e t)"
  let ?pub = "map snd (publishes (cycle_events e cfg fr t))"
  have cut: "?pub = [c_str (take 19 ?txt)]"
    using assms by (simp add: cycle_events_connected)
  have fits: "?pub = [?txt]" if "NUL \<notin> set ?txt \<and> length ?txt \<le> 19"
    using that by (simp add: cut c_str_id)
  have iso: "?pub = [iso_c_fmt_2f (lux_at e t)] \<and> spec_two_decimals (iso_c_fmt_2f (lux_at e t))"
    if a: "?txt = iso_c_fmt_2f (lux_at e t) \<and> float_finite (lux_at e t)
           \<and> length (iso_c_fmt_2f (lux_at e t)) \<le> 19"
  proof -
    from a have p: "spec_two_decimals ?txt" by (simp add: iso_c_fmt_2f_pattern)
    then have "NUL \<notin> set ?txt" by (rule spec_two_decimals_no_nul)
    with a have "?pub = [?txt]" by (simp add: fits)
    with a p show ?thesis by simp
  qed
  have ex1: "?pub = [''305.00'']"
    if a: "?txt = iso_c_fmt_2f (lux_at e t) \<and> lux_at e t = 0x43988000"
  proof -
    from a have r: "?txt = iso_c_fmt_2f (lux_at e t)" and l: "lux_at e t = 0x43988000"
      by blast+
    have "?txt = ''305.00''"
      unfolding r unfolding l by (rule iso_c_fmt_2f_samples)
    then show ?thesis by (simp add: cut c_str_def)
  qed
  have ex2: "?pub = [''0.50'']"
    if a: "?txt = iso_c_fmt_2f (lux_at e t) \<and> lux_at e t = 0x3F000000"
  proof -
    from a have r: "?txt = iso_c_fmt_2f (lux_at e t)" and l: "lux_at e t = 0x3F000000"
      by blast+
    have "?txt = ''0.50''"
      unfolding r unfolding l by (rule iso_c_fmt_2f_samples)
    then show ?thesis by (simp add: cut c_str_def)
  qed
  from cut fits iso ex1 ex2 iso_c_fmt_2f_pattern [of w] float_samples(1-4)
  show ?thesis by blast
qed

theorem payload_is_the_bounded_rendering_witness:
  "publishes (cycle_events env_iso sample_cfg frame0 []) = [(''bitdoglab_01/luminosidade'', ''305.00'')]
   \<and> map snd (publishes (cycle_events env_half sample_cfg frame0 [])) = [''0.50'']
   \<and> spec_two_decimals (iso_c_fmt_2f 0x43988000)
   \<and> spec_two_decimals (iso_c_fmt_2f 0x3F000000)"
proof -
  note a = payload_is_the_bounded_rendering
             [where e = env_iso and t = "[]" and cfg = sample_cfg and fr = frame0
                and w = "0x43988000", OF env_iso_on(1)]
  note b = payload_is_the_bounded_rendering
             [where e = env_half and t = "[]" and cfg = sample_cfg and fr = frame0
                and w = "0x3F000000", OF env_iso_on(2)]
  have h1: "fmt_2f env_iso (lux_at env_iso []) = iso_c_fmt_2f (lux_at env_iso [])
            \<and> lux_at env_iso [] = 0x43988000"
    by (simp add: env_iso_fmt env_iso_lux)
  have h2: "fmt_2f env_half (lux_at env_half []) = iso_c_fmt_2f (lux_at env_half [])
            \<and> lux_at env_half [] = 0x3F000000"
    by (simp add: env_iso_fmt env_iso_lux)
  from a h1 have a1: "map snd (publishes (cycle_events env_iso sample_cfg frame0 [])) = [''305.00'']"
    by blast
  from a float_samples(5) have a2: "spec_two_decimals (iso_c_fmt_2f 0x43988000)"
    by blast
  from b h2 have b1: "map snd (publishes (cycle_events env_half sample_cfg frame0 [])) = [''0.50'']"
    by blast
  from b float_samples(6) have b2: "spec_two_decimals (iso_c_fmt_2f 0x3F000000)"
    by blast
  have "publishes (cycle_events env_iso sample_cfg frame0 [])
          = [(''bitdoglab_01/luminosidade'', c_str (take 19 (fmt_2f env_iso (lux_at env_iso []))))]"
    by (simp add: cycle_events_connected [OF env_iso_on(1)] sample_topic)
  with a1 have a3: "publishes (cycle_events env_iso sample_cfg frame0 [])
          = [(''bitdoglab_01/luminosidade'', ''305.00'')]"
    by simp
  from a3 a2 b1 b2 show ?thesis by (simp only: simp_thms)
qed

text \<open>
  Claim C5 as written, for every reading, fails: the ISO C text of the finite reading
  1e16f has 20 bytes, and the published payload is its first 19 bytes, with one
  fractional digit.
\<close>

theorem payload_counterexample:
  "mqtt_conectado env_glare []
   \<and> float_finite (lux_at env_glare [])
   \<and> fmt_2f env_glare (lux_at env_glare []) = ''10000000272564224.00''
   \<and> publishes (cycle_events env_glare sample_cfg frame0 []) =
       [(''bitdoglab_01/luminosidade'', ''10000000272564224.0'')]
   \<and> \<not> spec_two_decimals ''10000000272564224.0''"
proof (intro conjI)
  show c: "mqtt_conectado env_glare []" by (rule env_iso_on)
  show "float_finite (lux_at env_glare [])"
    by (simp only: env_iso_lux float_samples)
  show rendering: "fmt_2f env_glare (lux_at env_glare []) = ''10000000272564224.00''"
    by (simp only: env_iso_lux env_iso_fmt iso_c_fmt_2f_samples)
  show "publishes (cycle_events env_glare sample_cfg frame0 []) =
       [(''bitdoglab_01/luminosidade'', ''10000000272564224.0'')]"
    by (simp add: cycle_events_connected [OF c] sample_topic rendering c_str_def)
  show "\<not> spec_two_decimals ''10000000272564224.0''"
    by (simp add: spec_two_decimals_def is_digit_def)
qed

subsection \<open>C6: the value returned by main\<close>

text \<open>
  Claim C6. \<^verbatim>\<open>main\<close> never returns 0. When it returns, it returns -1, the console wait has
  ended, and the radio initialisation or the association answered non-zero; in both of
  these cases it does return. The main loop has not ended after any number of
  iterations, so after a successful bring-up \<^verbatim>\<open>main\<close> is still running whatever the
  number of iterations looked at.
\<close>

theorem main_never_returns_zero:
  "main e cfg fuel fr \<noteq> Finished 0 tr
   \<and> (main e cfg fuel fr = Finished rc tr \<longrightarrow>
        rc = - 1
        \<and> (\<exists>tc. wait_usb e fuel [Ev_stdio_init_all] = Finished () tc
                 \<and> tr = snd (bringup e cfg tc)
                 \<and> (radio_status e tc \<noteq> 0 \<or> radio_status e tc = 0 \<and> assoc_status e tc \<noteq> 0)))
   \<and> main_loop e cfg n s = Unfinished (snd (cycles e cfg n s))
   \<and> (wait_usb e fuel [Ev_stdio_init_all] = Finished () tc
        \<and> (radio_status e tc \<noteq> 0 \<or> assoc_status e tc \<noteq> 0) \<longrightarrow>
        main e cfg fuel fr = Finished (- 1) (snd (bringup e cfg tc)))
   \<and> (wait_usb e fuel [Ev_stdio_init_all] = Finished () tc
        \<and> radio_status e tc = 0 \<and> assoc_status e tc = 0 \<longrightarrow>
        main e cfg fuel fr =
          Unfinished (snd (cycles e cfg fuel
                             (fr, grace_report e (grace_loop e 0 (snd (bringup e cfg tc)))))))"
proof -
  have ret: "rc = - 1
        \<and> (\<exists>tc. wait_usb e fuel [Ev_stdio_init_all] = Finished () tc
                 \<and> tr = snd (bringup e cfg tc)
                 \<and> (radio_status e tc \<noteq> 0 \<or> radio_status e tc = 0 \<and> assoc_status e tc \<noteq> 0))"
    if m: "main e cfg fuel fr = Finished rc tr" for rc tr
  proof (cases "wait_usb e fuel [Ev_stdio_init_all]")
    case (Unfinished t)
    with m show ?thesis by (simp add: main_console_missing)
  next
    case (Finished u tc)
    show ?thesis
    proof (cases "fst (bringup e cfg tc)")
      case None
      with m Finished show ?thesis by (simp add: main_bringup_ok)
    next
      case (Some r)
      from m have "rc = r" "tr = snd (bringup e cfg tc)"
        by (simp_all add: main_bringup_failed [OF Finished Some])
      with bringup_returns [OF Some] Finished show ?thesis by auto
    qed
  qed
  have zero: "main e cfg fuel fr \<noteq> Finished 0 tr"
  proof
    assume "main e cfg fuel fr = Finished 0 tr"
    from ret [OF this] show False by simp
  qed
  have failed: "main e cfg fuel fr = Finished (- 1) (snd (bringup e cfg tc))"
    if a: "wait_usb e fuel [Ev_stdio_init_all] = Finished () tc
        \<and> (radio_status e tc \<noteq> 0 \<or> assoc_status e tc \<noteq> 0)"
  proof -
    from a have "fst (bringup e cfg tc) = Some (- 1)"
      by (cases "radio_status e tc = 0") (auto simp: bringup_radio_failed bringup_assoc_failed)
    with a show ?thesis by (simp add: main_bringup_failed)
  qed
  have ok: "main e cfg fuel fr =
          Unfinished (snd (cycles e cfg fuel
                             (fr, grace_report e (grace_loop e 0 (snd (bringup e cfg tc))))))"
    if a: "wait_usb e fuel [Ev_stdio_init_all] = Finished () tc
        \<and> radio_status e tc = 0 \<and> assoc_status e tc = 0"
  proof -
    from a have "fst (bringup e cfg tc) = None" by (simp add: bringup_ok)
    with a show ?thesis by (simp add: main_bringup_ok)
  qed
  from zero ret failed ok main_loop_cycles [of e cfg n s] show ?thesis by blast
qed

theorem main_never_returns_zero_witness:
  "main env_no_radio sample_cfg 3 frame0 =
     Finished (- 1) (console_found @
       [Ev_printf Log_projeto, Ev_printf Log_inicializando_hw,
        Ev_cyw43_arch_init (- 1), Ev_printf Log_erro_inicializar_wifi])
   \<and> main env_no_wifi sample_cfg 3 frame0 =
     Finished (- 1) (console_found @
       [Ev_printf Log_projeto, Ev_printf Log_inicializando_hw,
        Ev_cyw43_arch_init 0, Ev_cyw43_arch_enable_sta_mode,
        Ev_cyw43_arch_wifi_connect_timeout_ms ''rede'' ''senha'' 30000 (- 2),
        Ev_printf Log_erro_conectar_wifi])
   \<and> trace_of (main env_online sample_cfg 3 frame0) =
       snd (cycles env_online sample_cfg 3
             (frame0, grace_report env_online
                        (grace_loop env_online 0
                           (snd (bringup env_online sample_cfg console_found)))))"
proof -
  have w1: "wait_usb env_no_radio 3 [Ev_stdio_init_all] = Finished () console_found"
    by (rule wait_usb_env_online) (simp add: env_no_radio_def env_online_def)
  have w2: "wait_usb env_no_wifi 3 [Ev_stdio_init_all] = Finished () console_found"
    by (rule wait_usb_env_online) (simp add: env_no_wifi_def env_online_def)
  have w3: "wait_usb env_online 3 [Ev_stdio_init_all] = Finished () console_found"
    by (rule wait_usb_env_online) (simp add: env_online_def)
  have r1: "radio_status env_no_radio console_found = - 1"
    by (simp add: radio_status_def env_no_radio_def env_online_def)
  have r2: "radio_status env_no_wifi console_found = 0" "assoc_status env_no_wifi console_found = - 2"
    by (simp_all add: radio_status_def assoc_status_def env_no_wifi_def env_online_def)
  have r3: "radio_status env_online console_found = 0" "assoc_status env_online console_found = 0"
    by (simp_all add: radio_status_def assoc_status_def env_online_def)
  have n1: "radio_status env_no_radio console_found \<noteq> 0" by (simp add: r1)
  have n2: "assoc_status env_no_wifi console_found \<noteq> 0" by (simp add: r2)
  note a = main_never_returns_zero
             [where e = env_no_radio and tc = console_found and fuel = 3
                and cfg = sample_cfg and fr = frame0]
  note b = main_never_returns_zero
             [where e = env_no_wifi and tc = console_found and fuel = 3
                and cfg = sample_cfg and fr = frame0]
  note c = main_never_returns_zero
             [where e = env_online and tc = console_found and fuel = 3
                and cfg = sample_cfg and fr = frame0]
  from a w1 n1 have a': "main env_no_radio sample_cfg 3 frame0 =
      Finished (- 1) (snd (bringup env_no_radio sample_cfg console_found))"
    by blast
  from b w2 n2 have b': "main env_no_wifi sample_cfg 3 frame0 =
      Finished (- 1) (snd (bringup env_no_wifi sample_cfg console_found))"
    by blast
  from c w3 r3 have c': "main env_online sample_cfg 3 frame0 =
      Unfinished (snd (cycles env_online sample_cfg 3
             (frame0, grace_report env_online
                        (grace_loop env_online 0
                           (snd (bringup env_online sample_cfg console_found))))))"
    by blast
  have s1: "snd (bringup env_no_radio sample_cfg console_found) = console_found @
       [Ev_printf Log_projeto, Ev_printf Log_inicializando_hw,
        Ev_cyw43_arch_init (- 1), Ev_printf Log_erro_inicializar_wifi]"
    using r1 by (simp add: bringup_radio_failed)
  have s2: "snd (bringup env_no_wifi sample_cfg console_found) = console_found @
       [Ev_printf Log_projeto, Ev_printf Log_inicializando_hw,
        Ev_cyw43_arch_init 0, Ev_cyw43_arch_enable_sta_mode,
        Ev_cyw43_arch_wifi_connect_timeout_ms ''rede'' ''senha'' 30000 (- 2),
        Ev_printf Log_erro_conectar_wifi]"
    using r2 by (simp add: bringup_assoc_failed sample_cfg_def)
  show ?thesis
    by (simp only: a' b' c' s1 s2 trace_of.simps simp_thms)
qed

subsection \<open>C7: one sleep of 1000 ms ends every iteration\<close>

text \<open>
  Claim C7. Every iteration of the main loop, connected or not, makes exactly one call
  of \<^verbatim>\<open>sleep_ms\<close>, with the argument 1000, as its last call; \<open>n\<close> iterations make
  \<open>n\<close> such calls.
\<close>

theorem every_cycle_ends_with_one_sleep:
  "sleeps (cycle_events e cfg fr t) = [1000]
   \<and> last (cycle_events e cfg fr t) = Ev_sleep_ms 1000
   \<and> sleeps (cycles_events e cfg n fr t) = replicate n 1000"
proof (intro conjI)
  have one: "sleeps (cycle_events e cfg fr2 t2) = [1000]" for fr2 t2
    by (cases "mqtt_conectado e t2")
       (simp_all add: cycle_events_connected cycle_events_disconnected)
  show "sleeps (cycle_events e cfg fr t) = [1000]"
    by (rule one)
  show "last (cycle_events e cfg fr t) = Ev_sleep_ms 1000"
    by (cases "mqtt_conectado e t")
       (simp_all add: cycle_events_connected cycle_events_disconnected)
  show "sleeps (cycles_events e cfg n fr t) = replicate n 1000"
    by (induction n)
       (simp_all add: cycles_events_0 cycles_events_Suc sleeps_append one replicate_append_same)
qed

theorem every_cycle_ends_with_one_sleep_witness:
  "sleeps (cycle_events env_offline sample_cfg frame0 []) = [1000]
   \<and> sleeps (cycle_events env_online sample_cfg frame0 []) = [1000]
   \<and> sleeps (cycles_events env_late sample_cfg 4 frame0 []) = [1000, 1000, 1000, 1000]"
  using every_cycle_ends_with_one_sleep [of env_offline sample_cfg frame0 "[]" 0]
        every_cycle_ends_with_one_sleep [of env_online sample_cfg frame0 "[]" 0]
        every_cycle_ends_with_one_sleep [of env_late sample_cfg frame0 "[]" 4]
  by (simp add: numeral_eq_Suc)

subsection \<open>C8: the console wait\<close>

text \<open>
  Claim C8. Right after \<^verbatim>\<open>stdio_init_all\<close> the program polls \<^verbatim>\<open>stdio_usb_connected\<close> and
  sleeps 100 ms after every poll that answered false. As long as no poll has answered
  true it is still in this loop, whatever the number of polls, and \<^verbatim>\<open>main\<close> has done
  nothing else; the wait ends at the first poll that answers true and at no other; it
  ends for some number of polls exactly when some poll answers true. The banner is the
  first call after the wait.
\<close>

theorem console_wait_unbounded:
  "((\<forall>j<n. \<not> usb_attached e (usb_wait_trace t j)) \<longrightarrow>
      wait_usb e n t = Unfinished (usb_wait_trace t n))
   \<and> (k < n \<and> (\<forall>j<k. \<not> usb_attached e (usb_wait_trace t j))
        \<and> usb_attached e (usb_wait_trace t k) \<longrightarrow>
      wait_usb e n t = Finished () (usb_wait_trace t k @ [Ev_stdio_usb_connected True]))
   \<and> ((\<exists>m tc. wait_usb e m t = Finished () tc) = (\<exists>j. usb_attached e (usb_wait_trace t j)))
   \<and> sleeps (usb_wait_trace [] k) = replicate k 100
   \<and> ((\<forall>j<n. \<not> usb_attached e (usb_wait_trace [Ev_stdio_init_all] j)) \<longrightarrow>
      main e cfg n fr = Unfinished (usb_wait_trace [Ev_stdio_init_all] n))
   \<and> (k < n \<and> (\<forall>j<k. \<not> usb_attached e (usb_wait_trace [Ev_stdio_init_all] j))
        \<and> usb_attached e (usb_wait_trace [Ev_stdio_init_all] k) \<longrightarrow>
      prefix (usb_wait_trace [Ev_stdio_init_all] k
                @ [Ev_stdio_usb_connected True, Ev_printf Log_projeto])
             (trace_of (main e cfg n fr)))"
proof (intro conjI impI)
  assume "\<forall>j<n. \<not> usb_attached e (usb_wait_trace t j)"
  then show "wait_usb e n t = Unfinished (usb_wait_trace t n)"
    by (rule wait_usb_spinning)
next
  assume "k < n \<and> (\<forall>j<k. \<not> usb_attached e (usb_wait_trace t j))
        \<and> usb_attached e (usb_wait_trace t k)"
  then show "wait_usb e n t = Finished () (usb_wait_trace t k @ [Ev_stdio_usb_connected True])"
    by (simp add: wait_usb_attached)
next
  show "(\<exists>m tc. wait_usb e m t = Finished () tc) = (\<exists>j. usb_attached e (usb_wait_trace t j))"
  proof
    assume "\<exists>m tc. wait_usb e m t = Finished () tc"
    then obtain m tc where "wait_usb e m t = Finished () tc" by blast
    from wait_usb_finished [OF this] show "\<exists>j. usb_attached e (usb_wait_trace t j)" by blast
  next
    assume ex: "\<exists>j. usb_attached e (usb_wait_trace t j)"
    define k where "k = (LEAST j. usb_attached e (usb_wait_trace t j))"
    from ex have on: "usb_attached e (usb_wait_trace t k)"
      unfolding k_def by (rule LeastI_ex)
    have off: "\<forall>j<k. \<not> usb_attached e (usb_wait_trace t j)"
      unfolding k_def by (auto dest: not_less_Least)
    have "k < Suc k" by simp
    from wait_usb_attached [OF this off on]
    show "\<exists>m tc. wait_usb e m t = Finished () tc" by blast
  qed
next
  show "sleeps (usb_wait_trace [] k) = replicate k 100"
    by (induction k) (simp_all add: usb_wait_trace_def)
next
  assume "\<forall>j<n. \<not> usb_attached e (usb_wait_trace [Ev_stdio_init_all] j)"
  then have "wait_usb e n [Ev_stdio_init_all] = Unfinished (usb_wait_trace [Ev_stdio_init_all] n)"
    by (rule wait_usb_spinning)
  then show "main e cfg n fr = Unfinished (usb_wait_trace [Ev_stdio_init_all] n)"
    by (rule main_console_missing)
next
  assume "k < n \<and> (\<forall>j<k. \<not> usb_attached e (usb_wait_trace [Ev_stdio_init_all] j))
        \<and> usb_attached e (usb_wait_trace [Ev_stdio_init_all] k)"
  then have "wait_usb e n [Ev_stdio_init_all]
               = Finished () (usb_wait_trace [Ev_stdio_init_all] k @ [Ev_stdio_usb_connected True])"
    by (simp add: wait_usb_attached)
  from main_trace_after_console [OF this, of cfg fr]
  show "prefix (usb_wait_trace [Ev_stdio_init_all] k
                @ [Ev_stdio_usb_connected True, Ev_printf Log_projeto])
             (trace_of (main e cfg n fr))"
    by simp
qed

theorem console_wait_unbounded_witness:
  "wait_usb env_online 5 [Ev_stdio_init_all] = Finished () console_found
   \<and> main env_no_console sample_cfg 3 frame0 =
       Unfinished [Ev_stdio_init_all,
                   Ev_stdio_usb_connected False, Ev_sleep_ms 100,
                   Ev_stdio_usb_connected False, Ev_sleep_ms 100,
                   Ev_stdio_usb_connected False, Ev_sleep_ms 100]
   \<and> prefix (console_found @ [Ev_printf Log_projeto])
            (trace_of (main env_online sample_cfg 5 frame0))"
proof -
  have h1: "2 < (5::nat)
      \<and> (\<forall>j<2. \<not> usb_attached env_online (usb_wait_trace [Ev_stdio_init_all] j))
      \<and> usb_attached env_online (usb_wait_trace [Ev_stdio_init_all] 2)"
    by (simp add: env_online_def usb_wait_trace_def numeral_2_eq_2 All_less_Suc)
  have h2: "\<forall>j<3. \<not> usb_attached env_no_console (usb_wait_trace [Ev_stdio_init_all] j)"
    by (simp add: env_no_console_def)
  have tr: "usb_wait_trace [Ev_stdio_init_all] 2 @ [Ev_stdio_usb_connected True] = console_found"
    by (simp add: usb_wait_trace_def console_found_def numeral_2_eq_2)
  note a = console_wait_unbounded
             [where e = env_online and t = "[Ev_stdio_init_all]" and k = 2 and n = 5
                and cfg = sample_cfg and fr = frame0]
  note b = console_wait_unbounded
             [where e = env_no_console and t = "[Ev_stdio_init_all]" and k = 2 and n = 3
                and cfg = sample_cfg and fr = frame0]
  from a h1 have a1: "wait_usb env_online 5 [Ev_stdio_init_all]
       = Finished () (usb_wait_trace [Ev_stdio_init_all] 2 @ [Ev_stdio_usb_connected True])"
    by blast
  from a h1 have a2: "prefix (usb_wait_trace [Ev_stdio_init_all] 2
                @ [Ev_stdio_usb_connected True, Ev_printf Log_projeto])
             (trace_of (main env_online sample_cfg 5 frame0))"
    by blast
  from b h2 have b1: "main env_no_console sample_cfg 3 frame0
       = Unfinished (usb_wait_trace [Ev_stdio_init_all] 3)"
    by blast
  have tr3: "usb_wait_trace [Ev_stdio_init_all] 3 = [Ev_stdio_init_all,
                   Ev_stdio_usb_connected False, Ev_sleep_ms 100,
                   Ev_stdio_usb_connected False, Ev_sleep_ms 100,
                   Ev_stdio_usb_connected False, Ev_sleep_ms 100]"
    by (simp add: usb_wait_trace_def numeral_3_eq_3)
  have tr2: "usb_wait_trace [Ev_stdio_init_all] 2
                @ [Ev_stdio_usb_connected True, Ev_printf Log_projeto]
             = console_found @ [Ev_printf Log_projeto]"
    by (simp add: usb_wait_trace_def console_found_def numeral_2_eq_2)
  from a1 a2 b1 show ?thesis
    by (simp only: tr tr2 tr3 simp_thms)
qed

subsection \<open>C9: the published strings fit their arrays\<close>

text \<open>
  Claim C9. In a connected iteration the two arrays keep their sizes of 128 and 20
  bytes and each holds a NUL; the published topic and payload are the C strings in
  them, of at most 127 and 19 bytes. When \<^verbatim>\<open>strlen(DEVICE_ID) + 1 +
  strlen(TOPICO_PUBLICACAO_LUZ)\<close> exceeds 127 the published topic is the first 127 bytes
  of the concatenation and differs from it; otherwise it is the concatenation.
\<close>

theorem published_strings_fit_their_buffers:
  assumes "mqtt_conectado e t"
      and "length (topico_completo fr) = 128"
      and "length (payload_lux fr) = 20"
  shows "(let fr2 = fst (loop_body e cfg (fr, t)) in
            length (topico_completo fr2) = 128 \<and> length (payload_lux fr2) = 20
            \<and> NUL \<in> set (topico_completo fr2) \<and> NUL \<in> set (payload_lux fr2)
            \<and> publishes (cycle_events e cfg fr t)
                = [(c_str (topico_completo fr2), c_str (payload_lux fr2))]
            \<and> strlen (topico_completo fr2) \<le> 127 \<and> strlen (payload_lux fr2) \<le> 19
            \<and> (127 < strlen (DEVICE_ID cfg) + 1 + strlen (TOPICO_PUBLICACAO_LUZ cfg) \<longrightarrow>
                 c_str (topico_completo fr2)
                   = take 127 (fmt_s_slash_s (DEVICE_ID cfg) (TOPICO_PUBLICACAO_LUZ cfg))
                 \<and> c_str (topico_completo fr2)
                   \<noteq> fmt_s_slash_s (DEVICE_ID cfg) (TOPICO_PUBLICACAO_LUZ cfg))
            \<and> (strlen (DEVICE_ID cfg) + 1 + strlen (TOPICO_PUBLICACAO_LUZ cfg) \<le> 127 \<longrightarrow>
                 c_str (topico_completo fr2)
                   = fmt_s_slash_s (DEVICE_ID cfg) (TOPICO_PUBLICACAO_LUZ cfg)))"
proof -
  let ?full = "fmt_s_slash_s (DEVICE_ID cfg) (TOPICO_PUBLICACAO_LUZ cfg)"
  let ?txt = "fmt_2f e (lux_at e t)"
  define fr2 where "fr2 = fst (loop_body e cfg (fr, t))"
  have tp: "topico_completo fr2 = snprintf (topico_completo fr) 128 ?full"
    and pl: "payload_lux fr2 = snprintf (payload_lux fr) 20 ?txt"
    using assms(1) by (simp_all add: fr2_def loop_body_connected)
  have ct: "c_str (topico_completo fr2) = take 127 ?full"
    by (simp add: tp c_str_snprintf c_str_take_fmt)
  have cp: "c_str (payload_lux fr2) = c_str (take 19 ?txt)"
    by (simp add: pl c_str_snprintf)
  have l1: "length (topico_completo fr2) = 128"
    using assms(2) by (simp add: tp length_snprintf)
  have l2: "length (payload_lux fr2) = 20"
    using assms(3) by (simp add: pl length_snprintf)
  have n1: "NUL \<in> set (topico_completo fr2)"
    using nul_in_snprintf [of 128 "topico_completo fr" ?full] l1 by (simp add: tp)
  have n2: "NUL \<in> set (payload_lux fr2)"
    using nul_in_snprintf [of 20 "payload_lux fr" ?txt] l2 by (simp add: pl)
  have pub: "publishes (cycle_events e cfg fr t)
                = [(c_str (topico_completo fr2), c_str (payload_lux fr2))]"
    using assms(1) by (simp add: cycle_events_connected ct cp)
  have s1: "strlen (topico_completo fr2) \<le> 127"
    by (simp add: strlen_def ct)
  have s2: "strlen (payload_lux fr2) \<le> 19"
    by (simp add: strlen_def cp length_c_str_take)
  have long: "c_str (topico_completo fr2) = take 127 ?full \<and> c_str (topico_completo fr2) \<noteq> ?full"
    if "127 < strlen (DEVICE_ID cfg) + 1 + strlen (TOPICO_PUBLICACAO_LUZ cfg)"
  proof -
    from that have "length (take 127 ?full) \<noteq> length ?full"
      by (simp add: length_fmt_s_slash_s)
    then have "take 127 ?full \<noteq> ?full" by metis
    then show ?thesis by (simp add: ct)
  qed
  have short: "c_str (topico_completo fr2) = ?full"
    if "strlen (DEVICE_ID cfg) + 1 + strlen (TOPICO_PUBLICACAO_LUZ cfg) \<le> 127"
    using that by (simp add: ct length_fmt_s_slash_s)
  from l1 l2 n1 n2 pub s1 s2 long short show ?thesis
    unfolding Let_def fr2_def [symmetric] by blast
qed

theorem published_strings_fit_their_buffers_witness:
  "c_str (topico_completo (fst (loop_body env_online long_cfg (frame0, []))))
     = replicate 127 (CHR ''a'')
   \<and> strlen (topico_completo (fst (loop_body env_online long_cfg (frame0, [])))) \<le> 127
   \<and> NUL \<in> set (topico_completo (fst (loop_body env_online long_cfg (frame0, []))))
   \<and> c_str (topico_completo (fst (loop_body env_online sample_cfg (frame0, []))))
     = ''bitdoglab_01/luminosidade''
   \<and> strlen (payload_lux (fst (loop_body env_online sample_cfg (frame0, [])))) \<le> 19"
proof -
  have f: "length (topico_completo frame0) = 128" "length (payload_lux frame0) = 20"
    by (simp_all add: frame0_def)
  have h1: "127 < strlen (DEVICE_ID long_cfg) + 1 + strlen (TOPICO_PUBLICACAO_LUZ long_cfg)"
    by (simp add: strlen_sample)
  have h2: "strlen (DEVICE_ID sample_cfg) + 1 + strlen (TOPICO_PUBLICACAO_LUZ sample_cfg) \<le> 127"
    by (simp add: strlen_sample)
  note a = published_strings_fit_their_buffers
             [where e = env_online and t = "[]" and fr = frame0 and cfg = long_cfg,
              OF env_online_on f, unfolded Let_def]
  note b = published_strings_fit_their_buffers
             [where e = env_online and t = "[]" and fr = frame0 and cfg = sample_cfg,
              OF env_online_on f, unfolded Let_def]
  from a h1 have a1:
    "c_str (topico_completo (fst (loop_body env_online long_cfg (frame0, []))))
       = take 127 (fmt_s_slash_s (DEVICE_ID long_cfg) (TOPICO_PUBLICACAO_LUZ long_cfg))"
    "strlen (topico_completo (fst (loop_body env_online long_cfg (frame0, [])))) \<le> 127"
    "NUL \<in> set (topico_completo (fst (loop_body env_online long_cfg (frame0, []))))"
    by blast+
  from b h2 have b1:
    "c_str (topico_completo (fst (loop_body env_online sample_cfg (frame0, []))))
       = fmt_s_slash_s (DEVICE_ID sample_cfg) (TOPICO_PUBLICACAO_LUZ sample_cfg)"
    "strlen (payload_lux (fst (loop_body env_online sample_cfg (frame0, [])))) \<le> 19"
    by blast+
  from a1 b1 show ?thesis
    by (simp only: long_topic sample_topic simp_thms)
qed

subsection \<open>C10: one query, one action\<close>

text \<open>
  Claim C10. Every iteration of the main loop calls \<^verbatim>\<open>cliente_mqtt_esta_conectado\<close>
  exactly once; when the answer is true it publishes once and does not restart, when it
  is false it restarts once and does not publish; so it makes exactly one of the two
  calls and never both.
\<close>

theorem one_query_selects_one_action:
  "queries (cycle_events e cfg fr t) = [mqtt_conectado e t]
   \<and> length (publishes (cycle_events e cfg fr t)) = (if mqtt_conectado e t then 1 else 0)
   \<and> restarts (cycle_events e cfg fr t) = (if mqtt_conectado e t then 0 else 1)
   \<and> length (publishes (cycle_events e cfg fr t)) + restarts (cycle_events e cfg fr t) = 1"
  by (cases "mqtt_conectado e t")
     (simp_all add: cycle_events_connected cycle_events_disconnected)

theorem one_query_selects_one_action_witness:
  "queries (cycle_events env_online sample_cfg frame0 []) = [True]
   \<and> length (publishes (cycle_events env_online sample_cfg frame0 [])) = 1
   \<and> restarts (cycle_events env_online sample_cfg frame0 []) = 0
   \<and> queries (cycle_events env_offline sample_cfg frame0 []) = [False]
   \<and> length (publishes (cycle_events env_offline sample_cfg frame0 [])) = 0
   \<and> restarts (cycle_events env_offline sample_cfg frame0 []) = 1"
  using one_query_selects_one_action [of env_online sample_cfg frame0 "[]"]
        one_query_selects_one_action [of env_offline sample_cfg frame0 "[]"]
  by (simp add: env_online_on env_offline_off)

end
